theory Spec2Isabelle
  imports Complex_Main "HOL-Library.Word"
begin

section \<open>Machine arithmetic shared by the controllers\<close>

text \<open>
  The firmware computes with C \<open>float\<close>, \<open>int\<close> (32 bit), \<open>int16_t\<close>, \<open>uint16_t\<close>
  and \<open>uint8_t\<close>.  In this development a \<open>float\<close> is a \<^typ>\<open>real\<close>: comparisons and clamps
  are exact, rounding of the arithmetic and the special values (infinities, NaN) are
  not represented.  A division whose divisor is zero is an explicit fault of the model.
  Integers are \<^typ>\<open>int\<close> with every narrowing cast written out; time stamps, which the
  code subtracts modulo \<open>2^32\<close>, are \<^typ>\<open>32 word\<close>.
\<close>

datatype fault = DivisionByZero

text \<open>Cast to \<open>int16_t\<close>: keep the low 16 bits, read as two's complement.\<close>

definition int16 :: "int \<Rightarrow> int" where
  "int16 x = (x + 32768) mod 65536 - 32768"

text \<open>Cast to \<open>uint16_t\<close>.\<close>

definition uint16 :: "int \<Rightarrow> int" where
  "uint16 x = x mod 65536"

text \<open>C integer division truncates towards zero and traps on a zero divisor.\<close>

definition c_quot :: "int \<Rightarrow> int \<Rightarrow> int" where
  "c_quot a b = (if (a < 0) = (b < 0) then \<bar>a\<bar> div \<bar>b\<bar> else - (\<bar>a\<bar> div \<bar>b\<bar>))"

definition idiv :: "int \<Rightarrow> int \<Rightarrow> fault + int" where
  "idiv a b = (if b = 0 then Inl DivisionByZero else Inr (c_quot a b))"

text \<open>Division of floats; the zero divisor is reported instead of producing an
  infinity or a NaN.\<close>

definition fdiv :: "real \<Rightarrow> real \<Rightarrow> fault + real" where
  "fdiv a b = (if b = 0 then Inl DivisionByZero else Inr (a / b))"

text \<open>Conversion of a float to an integer drops the fraction (towards zero).\<close>

definition c_truncate :: "real \<Rightarrow> int" where
  "c_truncate x = (if 0 \<le> x then \<lfloor>x\<rfloor> else \<lceil>x\<rceil>)"

text \<open>
  Storing a float into an \<open>int16_t\<close>.  C leaves the result undefined when the
  truncated value does not fit into 16 bits; the model wraps it, so that every store
  yields some 16-bit value.
\<close>

definition float_to_int16 :: "real \<Rightarrow> int" where
  "float_to_int16 x = int16 (c_truncate x)"

text \<open>
  Modelled from the spec: the saturating clamps \<open>constrain\<close> (on \<open>int\<close>) and
  \<open>constrainf\<close> (on \<open>float\<close>) and the macro \<open>ABS\<close> of \<open>common/maths.h\<close>, which is
  not among the sources.  The lower bound is tested first.
\<close>

definition constrain :: "int \<Rightarrow> int \<Rightarrow> int \<Rightarrow> int" where
  "constrain amt low high = (if amt < low then low else if amt > high then high else amt)"

definition constrainf :: "real \<Rightarrow> real \<Rightarrow> real \<Rightarrow> real" where
  "constrainf amt low high = (if amt < low then low else if amt > high then high else amt)"

definition ABS :: "real \<Rightarrow> real" where
  "ABS x = (if x > 0 then x else - x)"

section \<open>Inner controller: \<open>flight/pid.c\<close>\<close>

definition PID_MAX_OUTPUT :: real where
  "PID_MAX_OUTPUT = 1000"

subsection \<open>Stick and angle conversions\<close>

definition pidRcCommandToAngle :: "int \<Rightarrow> real" where
  "pidRcCommandToAngle stick = real_of_int stick * 2"

definition pidAngleToRcCommand :: "real \<Rightarrow> int" where
  "pidAngleToRcCommand angleDeciDegrees = float_to_int16 (angleDeciDegrees / 2)"

subsection \<open>Thrust PID attenuation\<close>

text \<open>
  The fields of \<open>controlRateConfig_t\<close> and \<open>rxConfig_t\<close> that \<open>updatePIDCoefficients\<close>
  reads.  Their declarations are not among the sources; the fields are integers.
\<close>

record controlRateConfig =
  dynThrPID :: int
  tpa_breakpoint :: int

record rxConfig =
  mincheck :: int
  maxcheck :: int

text \<open>
  The first statement of \<open>updatePIDCoefficients\<close>; \<open>throttle\<close> is \<open>rcData[THROTTLE]\<close>.
  The quotient in the middle branch is an integer division, evaluated before the
  division by \<open>100.0f\<close>.
\<close>

definition calc_tpaFactor :: "controlRateConfig \<Rightarrow> int \<Rightarrow> fault + real" where
  "calc_tpaFactor crc throttle =
     (if dynThrPID crc = 0 \<or> throttle < tpa_breakpoint crc then Inr 1
      else if throttle < 2000 then
        (case idiv (uint16 (dynThrPID crc) * (throttle - tpa_breakpoint crc))
                   (2000 - tpa_breakpoint crc) of
           Inl e \<Rightarrow> Inl e
         | Inr q \<Rightarrow> Inr (real_of_int (100 - q) / 100))
      else Inr (real_of_int (100 - dynThrPID crc) / 100))"

subsection \<open>Profile and per-axis state\<close>

datatype flight_dynamics_index_t = FD_ROLL | FD_PITCH | FD_YAW

datatype pidIndex_e =
  PIDROLL | PIDPITCH | PIDYAW | PIDALT | PIDPOS | PIDPOSR | PIDNAVR | PIDLEVEL | PIDMAG | PIDVEL

text \<open>The loops over \<open>axis = 0, 1, 2\<close> index the gain tables with the axis number.\<close>

fun pid_index :: "flight_dynamics_index_t \<Rightarrow> pidIndex_e" where
  "pid_index FD_ROLL = PIDROLL"
| "pid_index FD_PITCH = PIDPITCH"
| "pid_index FD_YAW = PIDYAW"

text \<open>\<open>pidProfile_t\<close> of \<open>flight/pid.h\<close>; \<open>max_angle_inclination\<close> holds signed values.\<close>

record pidProfile =
  P8 :: "pidIndex_e \<Rightarrow> 8 word"
  I8 :: "pidIndex_e \<Rightarrow> 8 word"
  D8 :: "pidIndex_e \<Rightarrow> 8 word"
  dterm_lpf_hz :: "8 word"
  yaw_pterm_lpf_hz :: "8 word"
  gyro_soft_lpf_hz :: "8 word"
  acc_soft_lpf_hz :: "8 word"
  yaw_p_limit :: "16 word"
  yaw_lpf_hz :: "8 word"
  max_angle_inclination :: "flight_dynamics_index_t \<Rightarrow> 16 word"
  mag_hold_rate_limit :: "8 word"

text \<open>
  \<open>pidState_t\<close>.  The PT1 filter state \<open>filterStatePt1_t\<close> is declared in
  \<open>common/filter.h\<close>, which is not among the sources: it is the type parameter \<open>'f\<close>.
\<close>

record 'f pidState =
  kP :: real
  kI :: real
  kD :: real
  kT :: real
  gyroRate :: real
  rateTarget :: real
  dTermBuf :: "real list"
  errorGyroIf :: real
  errorGyroIfLimit :: real
  axisLockAccum :: real
  angleFilterState :: 'f
  ptermLpfState :: 'f
  deltaLpfState :: 'f

text \<open>
  The filters of \<open>common/filter.c\<close> are not among the sources either.  The controller
  is parameterised by them: \<open>filterApplyPt1 input state f_cut dt\<close> returns the output and
  the new filter state, \<open>filterUpdateFIR n buf input\<close> the shifted history and
  \<open>filterApplyFIR n buf coeffs scale\<close> the weighted sum.
\<close>

record 'f filterOps =
  filterApplyPt1 :: "real \<Rightarrow> 'f \<Rightarrow> int \<Rightarrow> real \<Rightarrow> real \<times> 'f"
  filterUpdateFIR :: "nat \<Rightarrow> real list \<Rightarrow> real \<Rightarrow> real list"
  filterApplyFIR :: "nat \<Rightarrow> real list \<Rightarrow> real list \<Rightarrow> real \<Rightarrow> real"

text \<open>
  What the rate controller reads from the rest of the firmware: the externs
  \<open>motorCount\<close>, \<open>motorLimitReached\<close> and \<open>dT\<close>, and the state flags tested with
  \<open>STATE(PID_ATTENUATE)\<close> and \<open>STATE(ANTI_WINDUP)\<close>.
\<close>

record pidEnv =
  motorCount :: int
  motorLimitReached :: bool
  dT :: real
  state_PID_ATTENUATE :: bool
  state_ANTI_WINDUP :: bool

definition pidResetErrorAccumulators ::
  "(flight_dynamics_index_t \<Rightarrow> 'f pidState) \<Rightarrow> (flight_dynamics_index_t \<Rightarrow> 'f pidState)" where
  "pidResetErrorAccumulators pidStates =
     (let cleared = (\<lambda>axis. (pidStates axis)\<lparr>errorGyroIf := 0, errorGyroIfLimit := 0\<rparr>)
      in cleared(FD_YAW := (cleared FD_YAW)\<lparr>axisLockAccum := 0\<rparr>))"

subsection \<open>Gain refresh\<close>

definition KD_ATTENUATION_BREAK :: real where
  "KD_ATTENUATION_BREAK = 1 / 4"

text \<open>The throttle-based kD attenuation of \<open>updatePIDCoefficients\<close>.\<close>

definition calc_kdAttenuationFactor :: "rxConfig \<Rightarrow> int \<Rightarrow> fault + real" where
  "calc_kdAttenuationFactor rxc throttle =
     (case fdiv (real_of_int throttle - real_of_int (mincheck rxc))
                (real_of_int (maxcheck rxc) - real_of_int (mincheck rxc)) of
        Inl e \<Rightarrow> Inl e
      | Inr r \<Rightarrow>
          (let relThrottle = constrainf r 0 1
           in if relThrottle < KD_ATTENUATION_BREAK
              then Inr (constrainf ((relThrottle / KD_ATTENUATION_BREAK) + 1 / 2) 0 1)
              else Inr 1))"

text \<open>
  The back-calculation gain \<open>2.0f / ((kP / kI) + (kD / kP))\<close>, with its three
  divisions in the order in which C evaluates their operands.
\<close>

definition calc_kT :: "real \<Rightarrow> real \<Rightarrow> real \<Rightarrow> fault + real" where
  "calc_kT p i d =
     (case fdiv p i of
        Inl e \<Rightarrow> Inl e
      | Inr p_by_i \<Rightarrow>
          (case fdiv d p of
             Inl e \<Rightarrow> Inl e
           | Inr d_by_p \<Rightarrow> fdiv 2 (p_by_i + d_by_p)))"

text \<open>The body of the loop over the axes in \<open>updatePIDCoefficients\<close>.\<close>

definition updateAxisCoefficients ::
  "pidProfile \<Rightarrow> real \<Rightarrow> real \<Rightarrow> flight_dynamics_index_t \<Rightarrow> 'f pidState \<Rightarrow> fault + 'f pidState" where
  "updateAxisCoefficients pidProfile tpaFactor kdAttenuationFactor axis st =
     (let p = real_of_int (uint (P8 pidProfile (pid_index axis))) / 40;
          i = real_of_int (uint (I8 pidProfile (pid_index axis))) / 10;
          d = real_of_int (uint (D8 pidProfile (pid_index axis))) / 4000;
          p = (if axis \<noteq> FD_YAW then p * tpaFactor else p);
          d = (if axis \<noteq> FD_YAW then d * (tpaFactor * kdAttenuationFactor) else d)
      in if P8 pidProfile (pid_index axis) \<noteq> 0 \<and> I8 pidProfile (pid_index axis) \<noteq> 0
         then (case calc_kT p i d of
                 Inl e \<Rightarrow> Inl e
               | Inr t \<Rightarrow> Inr (st\<lparr>kP := p, kI := i, kD := d, kT := t\<rparr>))
         else Inr (st\<lparr>kP := p, kI := i, kD := d, kT := 0\<rparr>))"

text \<open>One axis of the loop, writing the refreshed state back into the array.\<close>

definition refreshAxis ::
  "pidProfile \<Rightarrow> real \<Rightarrow> real \<Rightarrow> flight_dynamics_index_t
     \<Rightarrow> (flight_dynamics_index_t \<Rightarrow> 'f pidState)
     \<Rightarrow> fault + (flight_dynamics_index_t \<Rightarrow> 'f pidState)" where
  "refreshAxis pidProfile tpaFactor kdAttenuationFactor axis pidStates =
     (case updateAxisCoefficients pidProfile tpaFactor kdAttenuationFactor axis (pidStates axis) of
        Inl e \<Rightarrow> Inl e
      | Inr st \<Rightarrow> Inr (pidStates(axis := st)))"

text \<open>\<open>updatePIDCoefficients\<close>; \<open>throttle\<close> is \<open>rcData[THROTTLE]\<close>.\<close>

definition updatePIDCoefficients ::
  "pidProfile \<Rightarrow> controlRateConfig \<Rightarrow> rxConfig \<Rightarrow> int
     \<Rightarrow> (flight_dynamics_index_t \<Rightarrow> 'f pidState)
     \<Rightarrow> fault + (flight_dynamics_index_t \<Rightarrow> 'f pidState)" where
  "updatePIDCoefficients pidProfile crc rxc throttle pidStates =
     (case calc_tpaFactor crc throttle of
        Inl e \<Rightarrow> Inl e
      | Inr tpaFactor \<Rightarrow>
     (case calc_kdAttenuationFactor rxc throttle of
        Inl e \<Rightarrow> Inl e
      | Inr kdAttenuationFactor \<Rightarrow>
     (case refreshAxis pidProfile tpaFactor kdAttenuationFactor FD_ROLL pidStates of
        Inl e \<Rightarrow> Inl e
      | Inr s0 \<Rightarrow>
     (case refreshAxis pidProfile tpaFactor kdAttenuationFactor FD_PITCH s0 of
        Inl e \<Rightarrow> Inl e
      | Inr s1 \<Rightarrow> refreshAxis pidProfile tpaFactor kdAttenuationFactor FD_YAW s1))))"

subsection \<open>Rate controller\<close>

text \<open>
  A float passed to \<open>constrain\<close> is converted to \<open>int\<close>; as for \<open>int16_t\<close>, a value
  that does not fit is wrapped.
\<close>

definition float_to_int32 :: "real \<Rightarrow> int" where
  "float_to_int32 x = (c_truncate x + 2147483648) mod 4294967296 - 2147483648"

definition dtermCoeffs :: "real list" where
  "dtermCoeffs = [5, 2, - 8, - 2, 3]"

text \<open>The P-term of \<open>pidApplyRateController\<close> and the new state of its yaw filter.\<close>

definition rate_PTerm ::
  "'f filterOps \<Rightarrow> pidEnv \<Rightarrow> pidProfile \<Rightarrow> flight_dynamics_index_t \<Rightarrow> 'f pidState \<Rightarrow> real \<times> 'f" where
  "rate_PTerm ops env pidProfile axis st =
     (let rateError = rateTarget st - gyroRate st;
          newPTerm = rateError * kP st;
          newPTerm =
            (if axis = FD_YAW \<and> (motorCount env \<ge> 4 \<and> yaw_p_limit pidProfile \<noteq> 0)
             then real_of_int (constrain (float_to_int32 newPTerm)
                                 (- uint (yaw_p_limit pidProfile)) (uint (yaw_p_limit pidProfile)))
             else newPTerm)
      in if axis = FD_YAW \<and> yaw_lpf_hz pidProfile \<noteq> 0
         then filterApplyPt1 ops newPTerm (ptermLpfState st) (uint (yaw_lpf_hz pidProfile)) (dT env)
         else (newPTerm, ptermLpfState st))"

text \<open>
  The D-term, the new derivative history and the new state of the D-term filter.  The
  scale \<open>-kD / (8 * dT)\<close> is the one float division of the controller.
\<close>

definition rate_DTerm ::
  "'f filterOps \<Rightarrow> pidEnv \<Rightarrow> pidProfile \<Rightarrow> flight_dynamics_index_t \<Rightarrow> 'f pidState
     \<Rightarrow> fault + (real \<times> real list \<times> 'f)" where
  "rate_DTerm ops env pidProfile axis st =
     (if D8 pidProfile (pid_index axis) = 0 then Inr (0, dTermBuf st, deltaLpfState st)
      else
        (let buf = filterUpdateFIR ops 5 (dTermBuf st) (gyroRate st)
         in case fdiv (- kD st) (8 * dT env) of
              Inl e \<Rightarrow> Inl e
            | Inr scale \<Rightarrow>
                (let newDTerm = filterApplyFIR ops 5 buf dtermCoeffs scale
                 in if dterm_lpf_hz pidProfile \<noteq> 0
                    then (case filterApplyPt1 ops newDTerm (deltaLpfState st)
                                 (uint (dterm_lpf_hz pidProfile)) (dT env) of
                            (filtered, fs) \<Rightarrow> Inr (filtered, buf, fs))
                    else Inr (newDTerm, buf, deltaLpfState st))))"

text \<open>
  \<open>pidApplyRateController\<close>.  It updates the state of its axis and stores the limited
  output into \<open>axisPID[axis]\<close>, an \<open>int16_t\<close>.
\<close>

definition pidApplyRateController ::
  "'f filterOps \<Rightarrow> pidEnv \<Rightarrow> pidProfile \<Rightarrow> flight_dynamics_index_t
     \<Rightarrow> 'f pidState \<times> (flight_dynamics_index_t \<Rightarrow> int)
     \<Rightarrow> fault + ('f pidState \<times> (flight_dynamics_index_t \<Rightarrow> int))" where
  "pidApplyRateController ops env pidProfile axis sa =
     (case sa of (st, axisPID) \<Rightarrow>
      (case rate_PTerm ops env pidProfile axis st of (newPTerm, pf) \<Rightarrow>
      (case rate_DTerm ops env pidProfile axis st of
         Inl e \<Rightarrow> Inl e
       | Inr (newDTerm, buf, df) \<Rightarrow>
          (let rateError = rateTarget st - gyroRate st;
               pidAttenuationFactor = (if state_PID_ATTENUATE env then 33 / 100 else 1);
               newOutput = (newPTerm + newDTerm) * pidAttenuationFactor + errorGyroIf st;
               newOutputLimited = constrainf newOutput (- PID_MAX_OUTPUT) PID_MAX_OUTPUT;
               integrated = errorGyroIf st
                  + ((rateError * kI st * dT env) + ((newOutputLimited - newOutput) * kT st * dT env));
               st1 = st\<lparr>ptermLpfState := pf, dTermBuf := buf, deltaLpfState := df\<rparr>;
               st2 = (if state_ANTI_WINDUP env \<or> motorLimitReached env
                      then st1\<lparr>errorGyroIf :=
                                 constrainf integrated (- errorGyroIfLimit st) (errorGyroIfLimit st)\<rparr>
                      else st1\<lparr>errorGyroIf := integrated, errorGyroIfLimit := ABS integrated\<rparr>)
           in Inr (st2, axisPID(axis := float_to_int16 newOutputLimited))))))"

text \<open>
  Where a float division has a zero divisor the firmware does not stop: it stores the
  infinity or NaN and the later calls compute with it.  The model has no such values;
  its result \<open>Inl DivisionByZero\<close> marks the call at which the firmware leaves finite
  arithmetic, and a run of calls ends there.

  The calls that change the per-axis state and \<open>axisPID\<close> between power-up and any
  later moment: the reset of the accumulators, the gain refresh, and the rate
  controller on one axis, run after steps 1 to 3 of \<open>pidController\<close> have written
  that axis' \<open>gyroRate\<close> and \<open>rateTarget\<close>.
\<close>

datatype pidCall =
  CallReset
| CallUpdateCoefficients pidProfile controlRateConfig rxConfig int
| CallRateController pidEnv pidProfile flight_dynamics_index_t real real

fun pidStep ::
  "'f filterOps \<Rightarrow> pidCall
     \<Rightarrow> (flight_dynamics_index_t \<Rightarrow> 'f pidState) \<times> (flight_dynamics_index_t \<Rightarrow> int)
     \<Rightarrow> fault + ((flight_dynamics_index_t \<Rightarrow> 'f pidState) \<times> (flight_dynamics_index_t \<Rightarrow> int))" where
  "pidStep ops CallReset (pidStates, axisPID) = Inr (pidResetErrorAccumulators pidStates, axisPID)"
| "pidStep ops (CallUpdateCoefficients pidProfile crc rxc throttle) (pidStates, axisPID) =
     (case updatePIDCoefficients pidProfile crc rxc throttle pidStates of
        Inl e \<Rightarrow> Inl e
      | Inr ps \<Rightarrow> Inr (ps, axisPID))"
| "pidStep ops (CallRateController env pidProfile axis gyro target) (pidStates, axisPID) =
     (case pidApplyRateController ops env pidProfile axis
             ((pidStates axis)\<lparr>gyroRate := gyro, rateTarget := target\<rparr>, axisPID) of
        Inl e \<Rightarrow> Inl e
      | Inr (st, ap) \<Rightarrow> Inr (pidStates(axis := st), ap))"

fun pidRun ::
  "'f filterOps \<Rightarrow> pidCall list
     \<Rightarrow> (flight_dynamics_index_t \<Rightarrow> 'f pidState) \<times> (flight_dynamics_index_t \<Rightarrow> int)
     \<Rightarrow> fault + ((flight_dynamics_index_t \<Rightarrow> 'f pidState) \<times> (flight_dynamics_index_t \<Rightarrow> int))" where
  "pidRun ops [] s = Inr s"
| "pidRun ops (c # cs) s =
     (case pidStep ops c s of Inl e \<Rightarrow> Inl e | Inr s' \<Rightarrow> pidRun ops cs s')"

subsection \<open>Magnetometer heading hold\<close>

text \<open>
  Modelled from the spec: the macro \<open>DECIDEGREES_TO_DEGREES\<close>, which is not among the
  sources, divides the \<open>int16_t\<close> heading in deci-degrees by 10.
\<close>

definition DECIDEGREES_TO_DEGREES :: "int \<Rightarrow> int" where
  "DECIDEGREES_TO_DEGREES angle = c_quot angle 10"

text \<open>
  The local variable \<open>error\<close> of \<open>pidMagHold\<close>, an \<open>int16_t\<close>, after the two
  conditional corrections; \<open>yaw\<close> is \<open>attitude.values.yaw\<close>.
\<close>

definition magHoldError :: "int \<Rightarrow> int \<Rightarrow> int" where
  "magHoldError yaw magHoldTargetHeading =
     (let error = int16 (DECIDEGREES_TO_DEGREES yaw - magHoldTargetHeading);
          error = (if error \<le> - 180 then int16 (error + 360) else error);
          error = (if error \<ge> 180 then int16 (error - 360) else error)
      in error)"

text \<open>
  \<open>pidMagHold\<close>: the P controller on that error, its limit and its 2 Hz filter, whose
  state is the function's static \<open>magHoldRateFilter\<close>.
\<close>

definition MAG_HOLD_ERROR_LPF_FREQ :: int where
  "MAG_HOLD_ERROR_LPF_FREQ = 2"

definition pidMagHold ::
  "'f filterOps \<Rightarrow> pidProfile \<Rightarrow> int \<Rightarrow> int \<Rightarrow> real \<Rightarrow> 'f \<Rightarrow> real \<times> 'f" where
  "pidMagHold ops pidProfile yaw magHoldTargetHeading dt magHoldRateFilter =
     (let error = magHoldError yaw magHoldTargetHeading;
          magHoldRate = real_of_int (c_quot (error * uint (P8 pidProfile PIDMAG)) 30);
          magHoldRate = constrainf magHoldRate
                          (real_of_int (- uint (mag_hold_rate_limit pidProfile)))
                          (real_of_int (uint (mag_hold_rate_limit pidProfile)))
      in filterApplyPt1 ops magHoldRate magHoldRateFilter MAG_HOLD_ERROR_LPF_FREQ dt)"

text \<open>
  The state of one axis at power-up (C zeroes statics), given the zeroed filter
  state, and a concrete instance of the filters for evaluating the controller on
  examples: the PT1 filter passes its input through, the FIR filter shifts its
  history and returns the scaled weighted sum.
\<close>

definition pidState_poweron :: "'f \<Rightarrow> 'f pidState" where
  "pidState_poweron f0 =
     \<lparr>kP = 0, kI = 0, kD = 0, kT = 0, gyroRate = 0, rateTarget = 0,
      dTermBuf = [0, 0, 0, 0, 0], errorGyroIf = 0, errorGyroIfLimit = 0, axisLockAccum = 0,
      angleFilterState = f0, ptermLpfState = f0, deltaLpfState = f0\<rparr>"

definition exampleFilters :: "unit filterOps" where
  "exampleFilters =
     \<lparr>filterApplyPt1 = (\<lambda>input fs f_cut dt. (input, fs)),
      filterUpdateFIR = (\<lambda>n buf input. input # butlast buf),
      filterApplyFIR = (\<lambda>n buf coeffs scale. scale * sum_list (map2 (*) buf coeffs))\<rparr>"

definition exampleProfile :: pidProfile where
  "exampleProfile =
     \<lparr>P8 = (\<lambda>_. 40), I8 = (\<lambda>_. 30), D8 = (\<lambda>_. 23),
      dterm_lpf_hz = 40, yaw_pterm_lpf_hz = 0, gyro_soft_lpf_hz = 60, acc_soft_lpf_hz = 15,
      yaw_p_limit = 300, yaw_lpf_hz = 30, max_angle_inclination = (\<lambda>_. 300),
      mag_hold_rate_limit = 90\<rparr>"

text \<open>An environment for the examples: a quadcopter at a 1 kHz loop, no flag set.\<close>

definition exampleEnv :: pidEnv where
  "exampleEnv = \<lparr>motorCount = 4, motorLimitReached = False, dT = 1 / 1000,
      state_PID_ATTENUATE = False, state_ANTI_WINDUP = False\<rparr>"

text \<open>
  The attenuation factor as the specification words it, for comparison with
  \<open>calc_tpaFactor\<close>: the quotient is taken over the reals.
\<close>

definition spec_tpaFactor :: "controlRateConfig \<Rightarrow> int \<Rightarrow> real" where
  "spec_tpaFactor crc throttle =
     (if dynThrPID crc = 0 \<or> throttle < tpa_breakpoint crc then 1
      else if throttle < 2000 then
        1 - (real_of_int (dynThrPID crc) / 100) * real_of_int (throttle - tpa_breakpoint crc)
              / real_of_int (2000 - tpa_breakpoint crc)
      else 1 - real_of_int (dynThrPID crc) / 100)"

section \<open>Outer controller: the multicopter navigation code\<close>

subsection \<open>State\<close>

datatype rc_alias_e = ROLL | PITCH | YAW | THROTTLE

datatype climbRateToAltitudeControllerMode_e =
  CLIMB_RATE_KEEP_SURFACE_TARGET | CLIMB_RATE_RESET_SURFACE_TARGET | CLIMB_RATE_UPDATE_SURFACE_TARGET

text \<open>
  The navigation structures are declared in \<open>navigation_rewrite_private.h\<close>, which is
  not among the sources.  A PID object \<open>pidController_t\<close> is a record of the two fields
  this file names, \<open>param.kP\<close> and \<open>integrator\<close>; its other fields are the record's
  extension \<open>'p\<close>.  \<open>posControl\<close> is the record of the fields the modelled functions
  touch, a member \<open>a.b.c\<close> of the C structure being the field \<open>a_c\<close>;
  \<open>rcAdjustment[THROTTLE]\<close> is an \<open>int16_t\<close>.
\<close>

record pidController_t =
  param_kP :: real
  integrator :: real

record 'p posControl_t =
  isTerrainFollowEnabled :: bool
  hasValidSurfaceSensor :: bool
  hasValidAltitudeSensor :: bool
  verticalPositionDataNew :: bool
  verticalPositionDataConsumed :: bool
  desired_surface :: real
  desired_pos_Z :: real
  desired_vel_Z :: real
  actual_surface :: real
  actual_surfaceMin :: real
  actual_pos_Z :: real
  actual_vel_Z :: real
  actual_velXY :: real
  pids_pos_Z :: "'p pidController_t_scheme"
  pids_vel_Z :: "'p pidController_t_scheme"
  pids_surface :: "'p pidController_t_scheme"
  rcAdjustment_THROTTLE :: int

text \<open>
  The configuration the controllers read through \<open>posControl.navConfig\<close> and
  \<open>posControl.escAndServoConfig\<close>, and the constants of headers that are not among the
  sources: \<open>staleMicros\<close> is the value of \<open>HZ2US(MIN_POSITION_UPDATE_RATE_HZ)\<close>.
\<close>

record mcConfig =
  minthrottle :: int
  maxthrottle :: int
  mc_hover_throttle :: int
  mc_min_fly_throttle :: int
  emerg_descent_rate :: int
  staleMicros :: "32 word"
  NAV_THROTTLE_CUTOFF_FREQENCY_HZ :: int
  LAND_DETECTOR_TRIGGER_TIME_MS :: int

text \<open>
  The functions this file calls and that are defined elsewhere: the PID object's
  \<open>navPidReset\<close> and \<open>navPidApply2\<close>, the PT1 filter, and
  \<open>updateAltitudeTargetFromClimbRate\<close>.  The controllers are parameterised by them.
\<close>

record ('p, 'f) navOps =
  navPidReset :: "'p pidController_t_scheme \<Rightarrow> 'p pidController_t_scheme"
  navPidApply2 :: "real \<Rightarrow> real \<Rightarrow> real \<Rightarrow> 'p pidController_t_scheme \<Rightarrow> real \<Rightarrow> real \<Rightarrow> bool
                    \<Rightarrow> real \<times> 'p pidController_t_scheme"
  filterResetPt1 :: "'f \<Rightarrow> real \<Rightarrow> 'f"
  nav_filterApplyPt1 :: "real \<Rightarrow> 'f \<Rightarrow> int \<Rightarrow> real \<Rightarrow> real \<times> 'f"
  updateAltitudeTargetFromClimbRate ::
    "real \<Rightarrow> climbRateToAltitudeControllerMode_e \<Rightarrow> 'p posControl_t \<Rightarrow> 'p posControl_t"

text \<open>
  The mutable state: \<open>posControl\<close>, the global \<open>rcCommand\<close> (an array of \<open>int16_t\<close>),
  the file's statics, and the function statics of the altitude controller (\<open>alt_\<close>)
  and of the emergency landing controller (\<open>emerg_\<close>).
\<close>

record ('p, 'f) mcState =
  posControl :: "'p posControl_t"
  rcCommand :: "rc_alias_e \<Rightarrow> int"
  rcCommandAdjustedThrottle :: int
  altholdThrottleFilterState :: 'f
  prepareForTakeoffOnReset :: bool
  alt_previousTimePositionUpdate :: "32 word"
  alt_previousTimeUpdate :: "32 word"
  emerg_previousTimeUpdate :: "32 word"
  emerg_previousTimePositionUpdate :: "32 word"

text \<open>Modelled from the spec: the macro \<open>US2S\<close>, microseconds to seconds.\<close>

definition US2S :: "32 word \<Rightarrow> real" where
  "US2S us = real (unat us) / 1000000"

subsection \<open>Altitude controller\<close>

definition updateSurfaceTrackingAltitudeSetpoint ::
  "('p, 'f) navOps \<Rightarrow> 32 word \<Rightarrow> 'p posControl_t \<Rightarrow> 'p posControl_t" where
  "updateSurfaceTrackingAltitudeSetpoint ops deltaMicros pc =
     (if isTerrainFollowEnabled pc \<and> desired_surface pc \<ge> 0 then
        (if actual_surface pc \<ge> 0 \<and> hasValidSurfaceSensor pc then
           (case navPidApply2 ops (desired_surface pc) (actual_surface pc) (US2S deltaMicros)
                   (pids_surface pc) (- 5) 35 False of
              (targetAltitudeError, pid) \<Rightarrow>
                 pc\<lparr>pids_surface := pid, desired_pos_Z := actual_pos_Z pc + targetAltitudeError\<rparr>)
         else updateAltitudeTargetFromClimbRate ops (- 20) CLIMB_RATE_KEEP_SURFACE_TARGET pc)
      else pc)"

definition updateAltitudeVelocityController_MC :: "32 word \<Rightarrow> 'p posControl_t \<Rightarrow> 'p posControl_t" where
  "updateAltitudeVelocityController_MC deltaMicros pc =
     (let altitudeError = desired_pos_Z pc - actual_pos_Z pc;
          targetVel = altitudeError * param_kP (pids_pos_Z pc);
          targetVel = constrainf targetVel (- 2000) 2000;
          maxVelDifference = US2S deltaMicros * 250
      in pc\<lparr>desired_vel_Z := constrainf targetVel (desired_vel_Z pc - maxVelDifference)
                                  (desired_vel_Z pc + maxVelDifference)\<rparr>)"

text \<open>
  The throttle stage writes \<open>rcAdjustment[THROTTLE]\<close> three times; each write narrows
  to \<open>int16_t\<close>.  It also advances the throttle filter, a static of the file.
\<close>

definition updateAltitudeThrottleController_MC ::
  "('p, 'f) navOps \<Rightarrow> mcConfig \<Rightarrow> 32 word \<Rightarrow> 'p posControl_t \<times> 'f \<Rightarrow> 'p posControl_t \<times> 'f" where
  "updateAltitudeThrottleController_MC ops cfg deltaMicros pf =
     (case pf of (pc, filt) \<Rightarrow>
      (let thrAdjustmentMin = int16 (int16 (minthrottle cfg) - int16 (mc_hover_throttle cfg));
           thrAdjustmentMax = int16 (int16 (maxthrottle cfg) - int16 (mc_hover_throttle cfg))
       in case navPidApply2 ops (desired_vel_Z pc) (actual_vel_Z pc) (US2S deltaMicros)
                 (pids_vel_Z pc) (real_of_int thrAdjustmentMin) (real_of_int thrAdjustmentMax) False of
            (out, pid) \<Rightarrow>
              (case nav_filterApplyPt1 ops (real_of_int (float_to_int16 out)) filt
                      (NAV_THROTTLE_CUTOFF_FREQENCY_HZ cfg) (US2S deltaMicros) of
                 (filtered, filt') \<Rightarrow>
                   (pc\<lparr>pids_vel_Z := pid,
                       rcAdjustment_THROTTLE :=
                         int16 (constrain (float_to_int16 filtered) thrAdjustmentMin thrAdjustmentMax)\<rparr>,
                    filt'))))"

definition resetMulticopterAltitudeController ::
  "('p, 'f) navOps \<Rightarrow> ('p, 'f) mcState \<Rightarrow> ('p, 'f) mcState" where
  "resetMulticopterAltitudeController ops s =
     (let pc = posControl s;
          pc = pc\<lparr>pids_vel_Z := navPidReset ops (pids_vel_Z pc)\<rparr>;
          pc = pc\<lparr>pids_surface := navPidReset ops (pids_surface pc)\<rparr>;
          filt = filterResetPt1 ops (altholdThrottleFilterState s) 0;
          pc = pc\<lparr>desired_vel_Z := actual_vel_Z pc\<rparr>;
          pc = pc\<lparr>rcAdjustment_THROTTLE := 0\<rparr>
      in if prepareForTakeoffOnReset s
         then s\<lparr>posControl := pc\<lparr>pids_vel_Z := (pids_vel_Z pc)\<lparr>integrator := - 500\<rparr>\<rparr>,
                altholdThrottleFilterState := filt, prepareForTakeoffOnReset := False\<rparr>
         else s\<lparr>posControl := pc, altholdThrottleFilterState := filt\<rparr>)"

text \<open>
  The three stages run on fresh vertical data, in the altitude controller; the
  blackbox copies made under \<open>NAV_BLACKBOX\<close> are left out.
\<close>

definition altitudeStages ::
  "('p, 'f) navOps \<Rightarrow> mcConfig \<Rightarrow> 32 word \<Rightarrow> ('p, 'f) mcState \<Rightarrow> ('p, 'f) mcState" where
  "altitudeStages ops cfg deltaMicrosPositionUpdate s =
     (let pc = updateSurfaceTrackingAltitudeSetpoint ops deltaMicrosPositionUpdate (posControl s);
          pc = updateAltitudeVelocityController_MC deltaMicrosPositionUpdate pc
      in case updateAltitudeThrottleController_MC ops cfg deltaMicrosPositionUpdate
                (pc, altholdThrottleFilterState s) of
           (pc, filt) \<Rightarrow> s\<lparr>posControl := pc, altholdThrottleFilterState := filt\<rparr>)"

definition applyMulticopterAltitudeController ::
  "('p, 'f) navOps \<Rightarrow> mcConfig \<Rightarrow> 32 word \<Rightarrow> ('p, 'f) mcState \<Rightarrow> ('p, 'f) mcState" where
  "applyMulticopterAltitudeController ops cfg currentTime s0 =
     (let deltaMicros = currentTime - alt_previousTimeUpdate s0;
          s = s0\<lparr>alt_previousTimeUpdate := currentTime\<rparr>
      in if deltaMicros > staleMicros cfg then
           resetMulticopterAltitudeController ops
             (s\<lparr>alt_previousTimeUpdate := currentTime, alt_previousTimePositionUpdate := currentTime\<rparr>)
         else
           (let s =
              (if verticalPositionDataNew (posControl s) then
                 (let deltaMicrosPositionUpdate = currentTime - alt_previousTimePositionUpdate s;
                      s = s\<lparr>alt_previousTimePositionUpdate := currentTime\<rparr>;
                      s = (if deltaMicrosPositionUpdate < staleMicros cfg
                           then altitudeStages ops cfg deltaMicrosPositionUpdate s
                           else resetMulticopterAltitudeController ops s)
                  in s\<lparr>posControl := (posControl s)\<lparr>verticalPositionDataConsumed := True\<rparr>\<rparr>)
               else s);
                throttle = int16 (constrain
                             (int16 (mc_hover_throttle cfg) + rcAdjustment_THROTTLE (posControl s))
                             (minthrottle cfg) (maxthrottle cfg))
            in s\<lparr>rcCommand := (rcCommand s)(THROTTLE := throttle),
                  rcCommandAdjustedThrottle := throttle\<rparr>))"

subsection \<open>Land detector\<close>

text \<open>
  \<open>isMulticopterLandingDetected\<close>.  Its two pointer arguments are options: \<open>None\<close> is
  the null pointer, whose dereference leaves the call without a result.  \<open>currentTime\<close>
  is the value of \<open>micros()\<close>.  The result is the returned flag and the two pointees.
  In \<open>possibleLandingDetected\<close> the code tests the pointer \<open>hasHadSomeVelocity\<close>, not the
  flag it points to.
\<close>

definition isMulticopterLandingDetected ::
  "mcConfig \<Rightarrow> 32 word \<Rightarrow> 32 word option \<Rightarrow> bool option \<Rightarrow> ('p, 'f) mcState
     \<Rightarrow> (bool \<times> 32 word \<times> bool) option" where
  "isMulticopterLandingDetected cfg currentTime landingTimer hasHadSomeVelocity s =
     (case hasHadSomeVelocity of
        None \<Rightarrow> None
      | Some hadVelocity \<Rightarrow>
     (case landingTimer of
        None \<Rightarrow> None
      | Some timer \<Rightarrow>
         (let pc = posControl s;
              hadVelocity = (if \<not> hadVelocity \<and> actual_vel_Z pc < - 25 then True else hadVelocity);
              verticalMovement = (\<bar>actual_vel_Z pc\<bar> > 25);
              horizontalMovement = (actual_velXY pc > 100);
              minimalThrust = (rcCommandAdjustedThrottle s < mc_min_fly_throttle cfg);
              possibleLandingDetected =
                (hasHadSomeVelocity \<noteq> None \<and> minimalThrust
                   \<and> \<not> verticalMovement \<and> \<not> horizontalMovement);
              possibleLandingDetected =
                (if hasValidSurfaceSensor pc \<and> actual_surface pc \<ge> 0 \<and> actual_surfaceMin pc \<ge> 0
                 then possibleLandingDetected \<and> actual_surface pc \<le> actual_surfaceMin pc + 5
                 else possibleLandingDetected)
          in if \<not> possibleLandingDetected then Some (False, currentTime, hadVelocity)
             else Some (currentTime - timer > word_of_int (LAND_DETECTOR_TRIGGER_TIME_MS cfg * 1000),
                        timer, hadVelocity))))"

subsection \<open>Emergency landing\<close>

definition emergencyStages ::
  "('p, 'f) navOps \<Rightarrow> mcConfig \<Rightarrow> 32 word \<Rightarrow> ('p, 'f) mcState \<Rightarrow> ('p, 'f) mcState" where
  "emergencyStages ops cfg deltaMicrosPositionUpdate s =
     (let pc = updateAltitudeTargetFromClimbRate ops (- 1 * real_of_int (emerg_descent_rate cfg))
                 CLIMB_RATE_RESET_SURFACE_TARGET (posControl s);
          pc = updateAltitudeVelocityController_MC deltaMicrosPositionUpdate pc
      in case updateAltitudeThrottleController_MC ops cfg deltaMicrosPositionUpdate
                (pc, altholdThrottleFilterState s) of
           (pc, filt) \<Rightarrow> s\<lparr>posControl := pc, altholdThrottleFilterState := filt\<rparr>)"

text \<open>
  \<open>applyMulticopterEmergencyLandingController\<close>; \<open>failsafeConfig\<close> is the
  \<open>failsafe_throttle\<close> of the configuration that \<open>getActiveFailsafeConfig()\<close> returns,
  \<open>None\<close> when it returns the null pointer.
\<close>

definition applyMulticopterEmergencyLandingController ::
  "('p, 'f) navOps \<Rightarrow> mcConfig \<Rightarrow> int option \<Rightarrow> 32 word \<Rightarrow> ('p, 'f) mcState \<Rightarrow> ('p, 'f) mcState" where
  "applyMulticopterEmergencyLandingController ops cfg failsafeConfig currentTime s0 =
     (let deltaMicros = currentTime - emerg_previousTimeUpdate s0;
          s = s0\<lparr>emerg_previousTimeUpdate := currentTime\<rparr>;
          s = s\<lparr>rcCommand := (rcCommand s)(ROLL := 0, PITCH := 0, YAW := 0)\<rparr>
      in if hasValidAltitudeSensor (posControl s) then
           (if deltaMicros > staleMicros cfg then
              resetMulticopterAltitudeController ops
                (s\<lparr>emerg_previousTimeUpdate := currentTime,
                   emerg_previousTimePositionUpdate := currentTime\<rparr>)
            else
              (let s =
                 (if verticalPositionDataNew (posControl s) then
                    (let deltaMicrosPositionUpdate = currentTime - emerg_previousTimePositionUpdate s;
                         s = s\<lparr>emerg_previousTimePositionUpdate := currentTime\<rparr>;
                         s = (if deltaMicrosPositionUpdate < staleMicros cfg
                              then emergencyStages ops cfg deltaMicrosPositionUpdate s
                              else resetMulticopterAltitudeController ops s)
                     in s\<lparr>posControl := (posControl s)\<lparr>verticalPositionDataConsumed := True\<rparr>\<rparr>)
                  else s)
               in s\<lparr>rcCommand := (rcCommand s)(THROTTLE :=
                       int16 (constrain
                                (int16 (mc_hover_throttle cfg) + rcAdjustment_THROTTLE (posControl s))
                                (minthrottle cfg) (maxthrottle cfg)))\<rparr>))
         else
           (case failsafeConfig of
              Some failsafe_throttle \<Rightarrow>
                s\<lparr>rcCommand := (rcCommand s)(THROTTLE := int16 failsafe_throttle)\<rparr>
            | None \<Rightarrow> s\<lparr>rcCommand := (rcCommand s)(THROTTLE := int16 (minthrottle cfg))\<rparr>))"

subsection \<open>Ranges and examples\<close>

text \<open>The values an \<open>int16_t\<close> can hold.\<close>

definition int16_value :: "int \<Rightarrow> bool" where
  "int16_value x = (- 32768 \<le> x \<and> x \<le> 32767)"

text \<open>
  A concrete instance of the functions defined elsewhere, for evaluating the
  controllers on examples: a P-only PID whose reset clears the integrator, a PT1
  filter that passes its input through and remembers it, and a climb-rate update that
  leaves the altitude target alone.
\<close>

definition exampleNavOps :: "(unit, real) navOps" where
  "exampleNavOps =
     \<lparr>navPidReset = (\<lambda>pid. pid\<lparr>integrator := 0\<rparr>),
      navPidApply2 = (\<lambda>setpoint measurement dt pid outMin outMax dTermErrorTracking.
         (constrainf ((setpoint - measurement) * param_kP pid) outMin outMax, pid)),
      filterResetPt1 = (\<lambda>fs input. input),
      nav_filterApplyPt1 = (\<lambda>input fs f_cut dt. (input, input)),
      updateAltitudeTargetFromClimbRate = (\<lambda>climbRate mode pc. pc)\<rparr>"

text \<open>
  A configuration with the throttle range 1150 to 1850 around a hover throttle of 1500,
  a stale threshold of 200 ms and a land-detector trigger time of 2 s.
\<close>

definition exampleConfig :: mcConfig where
  "exampleConfig =
     \<lparr>minthrottle = 1150, maxthrottle = 1850, mc_hover_throttle = 1500,
      mc_min_fly_throttle = 1200, emerg_descent_rate = 200, staleMicros = 200000,
      NAV_THROTTLE_CUTOFF_FREQENCY_HZ = 2, LAND_DETECTOR_TRIGGER_TIME_MS = 2000\<rparr>"

text \<open>
  A craft at rest at its target altitude, armed at low throttle, with no altitude
  sensor and no fresh data; the receiver's throttle command is 900.
\<close>

definition examplePosControl :: "unit posControl_t" where
  "examplePosControl =
     \<lparr>isTerrainFollowEnabled = False, hasValidSurfaceSensor = False,
      hasValidAltitudeSensor = False, verticalPositionDataNew = False,
      verticalPositionDataConsumed = False,
      desired_surface = - 1, desired_pos_Z = 1000, desired_vel_Z = 30,
      actual_surface = - 1, actual_surfaceMin = - 1, actual_pos_Z = 1000, actual_vel_Z = 0,
      actual_velXY = 0,
      pids_pos_Z = \<lparr>param_kP = 1, integrator = 0\<rparr>,
      pids_vel_Z = \<lparr>param_kP = 1, integrator = 75\<rparr>,
      pids_surface = \<lparr>param_kP = 1, integrator = 10\<rparr>,
      rcAdjustment_THROTTLE = 40\<rparr>"

definition exampleState :: "(unit, real) mcState" where
  "exampleState =
     \<lparr>posControl = examplePosControl, rcCommand = (\<lambda>_. 0)(THROTTLE := 900),
      rcCommandAdjustedThrottle = 1100, altholdThrottleFilterState = 12,
      prepareForTakeoffOnReset = True,
      alt_previousTimePositionUpdate = 0, alt_previousTimeUpdate = 0,
      emerg_previousTimeUpdate = 0, emerg_previousTimePositionUpdate = 0\<rparr>"

text \<open>The same craft with a valid altitude sensor and a fresh vertical sample.\<close>

definition exampleFreshState :: "(unit, real) mcState" where
  "exampleFreshState = exampleState\<lparr>posControl :=
      examplePosControl\<lparr>hasValidAltitudeSensor := True, verticalPositionDataNew := True\<rparr>\<rparr>"

section \<open>Properties of the inner controller\<close>

lemma c_quot_nonneg: "0 \<le> a \<Longrightarrow> 0 < b \<Longrightarrow> c_quot a b = a div b"
  by (simp add: c_quot_def)

lemma int16_id: "- 32768 \<le> x \<Longrightarrow> x \<le> 32767 \<Longrightarrow> int16 x = x"
  by (simp add: int16_def)

subsection \<open>Thrust PID attenuation\<close>

lemma tpaFactor_middle:
  assumes d: "0 < dynThrPID crc" "dynThrPID crc \<le> 255"
    and t: "tpa_breakpoint crc \<le> throttle" "throttle < 2000"
  shows "calc_tpaFactor crc throttle =
      Inr (real_of_int (100 - (dynThrPID crc * (throttle - tpa_breakpoint crc))
                                 div (2000 - tpa_breakpoint crc)) / 100)"
proof -
  have u: "uint16 (dynThrPID crc) = dynThrPID crc"
    using d by (simp add: uint16_def)
  have pos: "0 < 2000 - tpa_breakpoint crc"
    using t by linarith
  have nn: "0 \<le> dynThrPID crc * (throttle - tpa_breakpoint crc)"
    using d t by simp
  show ?thesis
    using d t pos c_quot_nonneg [OF nn pos]
    by (simp add: calc_tpaFactor_def idiv_def u)
qed

lemma floor_quotient_gap:
  fixes a b :: int
  assumes q: "q = real_of_int a / real_of_int b" and d: "d = real_of_int (a div b)"
  shows "d \<le> q \<and> q < d + 1"
proof -
  have e: "a div b = \<lfloor>q\<rfloor>"
    by (simp add: q floor_divide_of_int_eq)
  have "real_of_int \<lfloor>q\<rfloor> \<le> q"
    by (rule of_int_floor_le)
  moreover have "q < real_of_int \<lfloor>q\<rfloor> + 1"
    by linarith
  ultimately show ?thesis
    by (simp add: d e)
qed

text \<open>
  C6, as amended.  For a \<open>uint8_t\<close> rate \<open>dynThrPID\<close>, the gain-refresh stage always
  produces a factor \<open>f\<close> (its integer division never has a zero divisor), and
  \<^item> \<open>f = 1\<close> when \<open>dynThrPID = 0\<close> or the throttle is below the breakpoint;
  \<^item> otherwise, below 2000, \<open>f = (100 - q) / 100\<close> with \<open>q\<close> the integer quotient
    \<open>dynThrPID * (throttle - breakpoint) div (2000 - breakpoint)\<close>, so that \<open>f\<close> is the
    specification's real-valued formula rounded up to a whole percent: it is at least
    that value and less than one percent above it;
  \<^item> otherwise \<open>f = 1 - dynThrPID / 100\<close>.
\<close>

theorem tpaFactor_whole_percent:
  assumes d: "0 \<le> dynThrPID crc" "dynThrPID crc \<le> 255"
  shows "\<exists>f. calc_tpaFactor crc throttle = Inr f \<and>
           f = (if dynThrPID crc = 0 \<or> throttle < tpa_breakpoint crc then 1
                else if throttle < 2000 then
                  real_of_int (100 - (dynThrPID crc * (throttle - tpa_breakpoint crc))
                                       div (2000 - tpa_breakpoint crc)) / 100
                else 1 - real_of_int (dynThrPID crc) / 100) \<and>
           spec_tpaFactor crc throttle \<le> f \<and> f < spec_tpaFactor crc throttle + 1 / 100"
proof (cases "dynThrPID crc = 0 \<or> throttle < tpa_breakpoint crc")
  case True
  then show ?thesis
    by (auto simp add: calc_tpaFactor_def spec_tpaFactor_def)
next
  case outer: False
  show ?thesis
  proof (cases "throttle < 2000")
    case True
    define a where "a = dynThrPID crc * (throttle - tpa_breakpoint crc)"
    define b where "b = 2000 - tpa_breakpoint crc"
    define q where "q = real_of_int a / real_of_int b"
    define k where "k = real_of_int (a div b)"
    have dpos: "0 < dynThrPID crc" and t: "tpa_breakpoint crc \<le> throttle"
      using outer d by auto
    have code: "calc_tpaFactor crc throttle = Inr (real_of_int (100 - a div b) / 100)"
      using tpaFactor_middle [OF dpos d(2) t True] by (simp add: a_def b_def)
    have spec: "spec_tpaFactor crc throttle = 1 - q / 100"
      using outer True by (simp add: spec_tpaFactor_def a_def b_def q_def)
    have f: "real_of_int (100 - a div b) / 100 = 1 - k / 100"
      by (simp add: k_def diff_divide_distrib)
    have gap: "k \<le> q \<and> q < k + 1"
      by (rule floor_quotient_gap [OF q_def k_def])
    have "1 - q / 100 \<le> 1 - k / 100 \<and> 1 - k / 100 < 1 - q / 100 + 1 / 100"
      using gap by simp
    then show ?thesis
      using outer True unfolding code spec f
      by (simp add: a_def b_def k_def diff_divide_distrib)
  next
    case False
    then show ?thesis
      using outer by (simp add: calc_tpaFactor_def spec_tpaFactor_def diff_divide_distrib)
  qed
qed

theorem tpaFactor_whole_percent_witness:
  "calc_tpaFactor \<lparr>dynThrPID = 50, tpa_breakpoint = 1500\<rparr> 1500 = Inr 1 \<and>
   calc_tpaFactor \<lparr>dynThrPID = 50, tpa_breakpoint = 1500\<rparr> 1750 = Inr (3 / 4) \<and>
   calc_tpaFactor \<lparr>dynThrPID = 50, tpa_breakpoint = 1500\<rparr> 2000 = Inr (1 / 2)"
  using tpaFactor_whole_percent [of "\<lparr>dynThrPID = 50, tpa_breakpoint = 1500\<rparr>" 1500]
    tpaFactor_whole_percent [of "\<lparr>dynThrPID = 50, tpa_breakpoint = 1500\<rparr>" 1750]
    tpaFactor_whole_percent [of "\<lparr>dynThrPID = 50, tpa_breakpoint = 1500\<rparr>" 2000]
  by auto

text \<open>
  The claim as worded fails one microsecond of throttle above the breakpoint: the code
  still applies no attenuation where the real-valued formula gives 0.999.
\<close>

theorem tpaFactor_counterexample:
  "calc_tpaFactor \<lparr>dynThrPID = 50, tpa_breakpoint = 1500\<rparr> 1501 = Inr 1 \<and>
   spec_tpaFactor \<lparr>dynThrPID = 50, tpa_breakpoint = 1500\<rparr> 1501 = 999 / 1000"
  by (simp add: calc_tpaFactor_def spec_tpaFactor_def idiv_def uint16_def c_quot_def)

subsection \<open>Stick and angle round trip\<close>

lemma c_truncate_half:
  "c_truncate (real_of_int x / 2) =
     (if even x then x div 2 else if 0 \<le> x then x div 2 else x div 2 + 1)"
proof (cases "even x")
  case True
  then obtain k where k: "x = 2 * k"
    by (auto elim: evenE)
  show ?thesis
    using True by (simp add: k c_truncate_def)
next
  case False
  then obtain k where k: "x = 2 * k + 1"
    by (auto elim: oddE)
  have fl: "\<lfloor>real_of_int x / 2\<rfloor> = k"
    unfolding k by (simp add: floor_unique)
  have ce: "\<lceil>real_of_int x / 2\<rceil> = k + 1"
    unfolding k by (simp add: ceiling_unique)
  show ?thesis
    using False fl ce by (auto simp add: c_truncate_def k)
qed

lemma angle_rc_roundtrip_wide:
  assumes "- 65537 \<le> x" "x \<le> 65535"
  shows "pidRcCommandToAngle (pidAngleToRcCommand (real_of_int x))
           = real_of_int (if even x then x else x - sgn x)"
proof -
  have rng: "- 32768 \<le> c_truncate (real_of_int x / 2)" "c_truncate (real_of_int x / 2) \<le> 32767"
    using assms unfolding c_truncate_half by (auto elim!: evenE oddE)
  have "real_of_int (c_truncate (real_of_int x / 2)) * 2
          = real_of_int (if even x then x else x - sgn x)"
    unfolding c_truncate_half by (auto elim!: evenE oddE simp: sgn_if)
  then show ?thesis
    by (simp add: pidRcCommandToAngle_def pidAngleToRcCommand_def float_to_int16_def
        int16_id [OF rng])
qed

text \<open>
  C9.  The callers of \<open>pidAngleToRcCommand\<close> pass it \<open>posControl.rcAdjustment[PITCH]\<close> and
  \<open>posControl.rcAdjustment[ROLL]\<close>, which are \<open>int16_t\<close>.  For every integer deci-degree
  angle \<open>x\<close> of that type, converting it to an RC command and back returns \<open>x\<close> within
  rounding: the result is \<open>x\<close> itself when \<open>x\<close> is even and the neighbouring even number
  towards zero when \<open>x\<close> is odd, so it differs from \<open>x\<close> by at most 1.
\<close>

theorem angle_rc_roundtrip:
  assumes "int16_value x"
  shows "pidRcCommandToAngle (pidAngleToRcCommand (real_of_int x))
           = real_of_int (if even x then x else x - sgn x) \<and>
         \<bar>pidRcCommandToAngle (pidAngleToRcCommand (real_of_int x)) - real_of_int x\<bar> \<le> 1"
proof -
  have "- 65537 \<le> x" "x \<le> 65535"
    using assms by (simp_all add: int16_value_def)
  then have eq: "pidRcCommandToAngle (pidAngleToRcCommand (real_of_int x))
          = real_of_int (if even x then x else x - sgn x)"
    by (rule angle_rc_roundtrip_wide)
  show ?thesis
    unfolding eq by (simp add: sgn_if)
qed

theorem angle_rc_roundtrip_witness:
  "int16_value 300 \<and> int16_value (- 301) \<and>
   pidRcCommandToAngle (pidAngleToRcCommand 300) = 300 \<and>
   pidRcCommandToAngle (pidAngleToRcCommand (- 301)) = - 300 \<and>
   \<bar>pidRcCommandToAngle (pidAngleToRcCommand (- 301)) - (- 301)\<bar> \<le> 1"
proof -
  have a: "int16_value 300" and b: "int16_value (- 301)"
    by (simp_all add: int16_value_def)
  from angle_rc_roundtrip [OF a] angle_rc_roundtrip [OF b] a b show ?thesis
    by simp
qed

subsection \<open>Magnetometer heading hold\<close>

text \<open>
  C5, as amended.  For every raw heading error of the form \<open>e + 360 n\<close> with \<open>e\<close> in the
  half-open interval \<open>[-180, 180)\<close> and a wrap count \<open>n\<close> of \<open>-1\<close>, \<open>0\<close> or \<open>1\<close>, the
  internal error of the mag-hold controller equals \<open>e\<close>, so it lies in \<open>[-180, 180)\<close>,
  and the rate handed to the 2 Hz filter is the limited \<open>e * P8[PIDMAG] / 30\<close>.
\<close>

theorem magHold_error_wrap:
  assumes e: "- 180 \<le> e" "e < 180" and n: "n = - 1 \<or> n = 0 \<or> n = 1"
    and raw: "DECIDEGREES_TO_DEGREES yaw - target = e + 360 * n"
  shows "magHoldError yaw target = e \<and>
         - 180 \<le> magHoldError yaw target \<and> magHoldError yaw target < 180 \<and>
         pidMagHold ops pidProfile yaw target dt fs =
           filterApplyPt1 ops
             (constrainf (real_of_int (c_quot (e * uint (P8 pidProfile PIDMAG)) 30))
                (real_of_int (- uint (mag_hold_rate_limit pidProfile)))
                (real_of_int (uint (mag_hold_rate_limit pidProfile))))
             fs MAG_HOLD_ERROR_LPF_FREQ dt"
proof -
  have i: "\<And>x. - 32768 \<le> x \<Longrightarrow> x \<le> 32767 \<Longrightarrow> int16 x = x"
    by (rule int16_id)
  have eq: "magHoldError yaw target = e"
    using n
  proof (elim disjE)
    assume "n = - 1"
    then show ?thesis
      using e by (simp add: magHoldError_def raw Let_def i)
  next
    assume "n = 0"
    then show ?thesis
      using e by (simp add: magHoldError_def raw Let_def i)
  next
    assume "n = 1"
    then show ?thesis
      using e by (simp add: magHoldError_def raw Let_def i)
  qed
  show ?thesis
    using e by (simp add: eq pidMagHold_def Let_def)
qed

text \<open>The wrap-around scenario of the specification: heading 1 degree, target 359.\<close>

theorem magHold_error_wrap_witness:
  "magHoldError 10 359 = 2 \<and> - 180 \<le> magHoldError 10 359 \<and> magHoldError 10 359 < 180 \<and>
   pidMagHold exampleFilters exampleProfile 10 359 (1 / 1000) () = (2, ())"
proof -
  have raw: "DECIDEGREES_TO_DEGREES 10 - 359 = 2 + 360 * (- 1)"
    by (simp add: DECIDEGREES_TO_DEGREES_def c_quot_def)
  from magHold_error_wrap [of 2 "- 1" 10 359 exampleFilters exampleProfile "1 / 1000" "()",
      OF _ _ _ raw]
  show ?thesis
    by (simp add: exampleFilters_def exampleProfile_def c_quot_def constrainf_def)
qed

text \<open>
  The claim as worded fails at the closed end of its interval and at a second wrap:
  a raw error of 180 (heading 180, target 0) becomes \<open>-180\<close>, not 180, and a raw error
  of \<open>10 + 2 * 360\<close> becomes 370, not 10.
\<close>

theorem magHold_error_wrap_counterexample:
  "DECIDEGREES_TO_DEGREES 1800 - 0 = 180 + 360 * 0 \<and> magHoldError 1800 0 = - 180 \<and>
   DECIDEGREES_TO_DEGREES 100 - (- 720) = 10 + 360 * 2 \<and> magHoldError 100 (- 720) = 370"
  by (simp add: magHoldError_def DECIDEGREES_TO_DEGREES_def c_quot_def int16_def)

subsection \<open>Rate controller\<close>

lemma c_truncate_small: "\<bar>x\<bar> \<le> 1000 \<Longrightarrow> \<bar>c_truncate x\<bar> \<le> 1000"
proof (cases "0 \<le> x")
  case True
  assume a: "\<bar>x\<bar> \<le> 1000"
  have "0 \<le> \<lfloor>x\<rfloor>" using True by simp
  moreover have "\<lfloor>x\<rfloor> \<le> 1000" using a by (simp add: floor_le_iff)
  ultimately have "\<bar>\<lfloor>x\<rfloor>\<bar> \<le> 1000" by linarith
  then show ?thesis using True by (simp only: c_truncate_def if_True)
next
  case False
  assume a: "\<bar>x\<bar> \<le> 1000"
  have "\<lceil>x\<rceil> \<le> 0" using False by (simp add: ceiling_le_iff)
  moreover have "- 1000 \<le> \<lceil>x\<rceil>" using a by (simp add: le_ceiling_iff)
  ultimately have "\<bar>\<lceil>x\<rceil>\<bar> \<le> 1000" by linarith
  then show ?thesis using False by (simp only: c_truncate_def if_False)
qed

lemma f16_small: "\<bar>x\<bar> \<le> 1000 \<Longrightarrow> \<bar>float_to_int16 x\<bar> \<le> 1000"
proof -
  assume a: "\<bar>x\<bar> \<le> 1000"
  have t: "\<bar>c_truncate x\<bar> \<le> 1000"
    using a by (rule c_truncate_small)
  then have "int16 (c_truncate x) = c_truncate x"
    by (intro int16_id) auto
  then show ?thesis using t by (simp add: float_to_int16_def)
qed


lemma constrainf_abs: "0 \<le> m \<Longrightarrow> \<bar>constrainf x (- m) m\<bar> \<le> m"
  by (auto simp add: constrainf_def)

lemma ABS_abs: "ABS x = \<bar>x\<bar>"
  by (simp add: ABS_def)

lemma step_result:
  assumes P: "rate_PTerm ops env prof axis st = (P, pf)"
    and D: "rate_DTerm ops env prof axis st = Inr (D, buf, df)"
    and u: "u = (P + D) * (if state_PID_ATTENUATE env then 33 / 100 else 1) + errorGyroIf st"
    and uLim: "uLim = constrainf u (- PID_MAX_OUTPUT) PID_MAX_OUTPUT"
    and i: "i = errorGyroIf st + ((rateTarget st - gyroRate st) * kI st * dT env + (uLim - u) * kT st * dT env)"
  shows "pidApplyRateController ops env prof axis (st, ap) =
     Inr ((if state_ANTI_WINDUP env \<or> motorLimitReached env
           then st\<lparr>ptermLpfState := pf, dTermBuf := buf, deltaLpfState := df,
                 errorGyroIf := constrainf i (- errorGyroIfLimit st) (errorGyroIfLimit st)\<rparr>
           else st\<lparr>ptermLpfState := pf, dTermBuf := buf, deltaLpfState := df,
                 errorGyroIf := i, errorGyroIfLimit := ABS i\<rparr>),
          ap(axis := float_to_int16 uLim))"
  unfolding u uLim i
  by (simp add: pidApplyRateController_def P D Let_def)

lemma step_cases:
  assumes "pidApplyRateController ops env prof axis (st, ap) = Inr (st', ap')"
  obtains P pf D buf df where "rate_PTerm ops env prof axis st = (P, pf)"
    and "rate_DTerm ops env prof axis st = Inr (D, buf, df)"
proof (cases "rate_DTerm ops env prof axis st")
  case (Inl e)
  then show ?thesis using assms
    by (simp add: pidApplyRateController_def split: prod.splits)
next
  case (Inr r)
  obtain D buf df where r: "r = (D, buf, df)" by (cases r) auto
  obtain P pf where "rate_PTerm ops env prof axis st = (P, pf)" by (cases "rate_PTerm ops env prof axis st") auto
  then show ?thesis using that Inr r by simp
qed

lemma step_keeps_inv:
  assumes r: "pidApplyRateController ops env prof axis (st, ap) = Inr (st', ap')"
  shows "(0 \<le> errorGyroIfLimit st \<longrightarrow> 0 \<le> errorGyroIfLimit st') \<and>
         \<bar>real_of_int (ap' axis)\<bar> \<le> PID_MAX_OUTPUT \<and> (\<forall>a. a \<noteq> axis \<longrightarrow> ap' a = ap a)"
proof -
  from r obtain P pf D buf df where P: "rate_PTerm ops env prof axis st = (P, pf)"
    and D: "rate_DTerm ops env prof axis st = Inr (D, buf, df)"
    by (rule step_cases)
  define u where "u = (P + D) * (if state_PID_ATTENUATE env then 33 / 100 else 1) + errorGyroIf st"
  define uLim where "uLim = constrainf u (- PID_MAX_OUTPUT) PID_MAX_OUTPUT"
  define i where "i = errorGyroIf st + ((rateTarget st - gyroRate st) * kI st * dT env + (uLim - u) * kT st * dT env)"
  note res = step_result [OF P D u_def uLim_def i_def, of ap]
  have b: "\<bar>uLim\<bar> \<le> 1000"
    unfolding uLim_def PID_MAX_OUTPUT_def by (rule constrainf_abs) simp
  have o: "\<bar>real_of_int (float_to_int16 uLim)\<bar> \<le> 1000"
    using f16_small [OF b] by (simp add: abs_le_iff)
  from r res have st': "st' = (if state_ANTI_WINDUP env \<or> motorLimitReached env
           then st\<lparr>ptermLpfState := pf, dTermBuf := buf, deltaLpfState := df,
                 errorGyroIf := constrainf i (- errorGyroIfLimit st) (errorGyroIfLimit st)\<rparr>
           else st\<lparr>ptermLpfState := pf, dTermBuf := buf, deltaLpfState := df,
                 errorGyroIf := i, errorGyroIfLimit := ABS i\<rparr>)"
    and ap': "ap' = ap(axis := float_to_int16 uLim)"
    by simp_all
  show ?thesis
    using o by (simp add: st' ap' ABS_abs PID_MAX_OUTPUT_def)
qed

lemma axis_refresh_keeps:
  "updateAxisCoefficients prof t k axis st = Inr st' \<Longrightarrow> errorGyroIfLimit st' = errorGyroIfLimit st"
  by (auto simp add: updateAxisCoefficients_def Let_def split: if_splits sum.splits)

lemma refreshAxis_keeps:
  "refreshAxis prof t k axis ps = Inr ps' \<Longrightarrow> (\<forall>a. errorGyroIfLimit (ps' a) = errorGyroIfLimit (ps a))"
  by (auto simp add: refreshAxis_def split: sum.splits dest: axis_refresh_keeps)

lemma update_keeps:
  assumes "updatePIDCoefficients prof crc rxc thr ps = Inr ps'"
  shows "errorGyroIfLimit (ps' a) = errorGyroIfLimit (ps a)"
  using assms
  by (auto simp add: updatePIDCoefficients_def split: sum.splits dest!: refreshAxis_keeps)

lemma reset_limit: "errorGyroIfLimit (pidResetErrorAccumulators ps a) = 0"
  by (simp add: pidResetErrorAccumulators_def Let_def)



lemma pidStep_limit:
  assumes "pidStep ops c (ps, ap) = Inr (ps', ap')" "\<forall>a. 0 \<le> errorGyroIfLimit (ps a)"
  shows "\<forall>a. 0 \<le> errorGyroIfLimit (ps' a)"
proof (cases c)
  case CallReset
  then show ?thesis using assms by (auto simp add: reset_limit)
next
  case (CallUpdateCoefficients prof crc rxc thr)
  then show ?thesis using assms
    by (auto simp add: update_keeps split: sum.splits)
next
  case (CallRateController env prof axis g t)
  from assms(1) CallRateController obtain st' where
    r: "pidApplyRateController ops env prof axis ((ps axis)\<lparr>gyroRate := g, rateTarget := t\<rparr>, ap) = Inr (st', ap')"
    and s': "ps' = ps(axis := st')"
    by (auto split: sum.splits)
  from step_keeps_inv [OF r] assms(2)
  show ?thesis
    unfolding s' by auto
qed

lemma limit_run:
  "pidRun ops cs (ps, ap) = Inr (ps', ap') \<Longrightarrow> \<forall>a. 0 \<le> errorGyroIfLimit (ps a)
     \<Longrightarrow> \<forall>a. 0 \<le> errorGyroIfLimit (ps' a)"
proof (induction cs arbitrary: ps ap)
  case Nil
  then show ?case by simp
next
  case (Cons c cs)
  from Cons.prems(1) obtain ps2 ap2 where s: "pidStep ops c (ps, ap) = Inr (ps2, ap2)"
    and r: "pidRun ops cs (ps2, ap2) = Inr (ps', ap')"
    by (auto split: sum.splits)
  from pidStep_limit [OF s Cons.prems(2)] have "\<forall>a. 0 \<le> errorGyroIfLimit (ps2 a)" .
  with r show ?case by (rule Cons.IH)
qed

lemma example_refresh:
  "updatePIDCoefficients exampleProfile \<lparr>dynThrPID = 50, tpa_breakpoint = 1500\<rparr>
      \<lparr>mincheck = 1100, maxcheck = 1900\<rparr> 1750 (\<lambda>_. pidState_poweron ()) =
   Inr ((\<lambda>_. pidState_poweron ())
      (FD_ROLL := (pidState_poweron ())\<lparr>kP := 3 / 4, kI := 3, kD := 69 / 16000, kT := 8000 / 1023\<rparr>,
       FD_PITCH := (pidState_poweron ())\<lparr>kP := 3 / 4, kI := 3, kD := 69 / 16000, kT := 8000 / 1023\<rparr>,
       FD_YAW := (pidState_poweron ())\<lparr>kP := 1, kI := 3, kD := 23 / 4000, kT := 24000 / 4069\<rparr>))"
  by (simp add: updatePIDCoefficients_def refreshAxis_def updateAxisCoefficients_def calc_kT_def
      calc_tpaFactor_def calc_kdAttenuationFactor_def KD_ATTENUATION_BREAK_def idiv_def
      uint16_def c_quot_def fdiv_def exampleProfile_def constrainf_def Let_def)

lemma example_PTerm:
  "rate_PTerm exampleFilters exampleEnv exampleProfile FD_ROLL ((pidState_poweron ())\<lparr>kP := 3 / 4, kI := 3, kD := 69 / 16000, kT := 8000 / 1023, gyroRate := 0, rateTarget := 2000\<rparr>) = (1500, ())"
  by (simp add: rate_PTerm_def exampleFilters_def exampleEnv_def exampleProfile_def
      pidState_poweron_def)

lemma example_DTerm:
  "rate_DTerm exampleFilters exampleEnv exampleProfile FD_ROLL ((pidState_poweron ())\<lparr>kP := 3 / 4, kI := 3, kD := 69 / 16000, kT := 8000 / 1023, gyroRate := 0, rateTarget := 2000\<rparr>)
     = Inr (0, [0, 0, 0, 0, 0], ())"
  by (simp add: rate_DTerm_def exampleFilters_def exampleEnv_def exampleProfile_def fdiv_def
      dtermCoeffs_def pidState_poweron_def)

lemma example_u:
  "(1500::real) = (1500 + 0) * (if state_PID_ATTENUATE exampleEnv then 33 / 100 else 1)
      + errorGyroIf ((pidState_poweron ())\<lparr>kP := 3 / 4, kI := 3, kD := 69 / 16000, kT := 8000 / 1023, gyroRate := 0, rateTarget := 2000\<rparr>)"
  by (simp add: exampleEnv_def pidState_poweron_def)

lemma example_uLim: "(1000::real) = constrainf 1500 (- PID_MAX_OUTPUT) PID_MAX_OUTPUT"
  by (simp add: constrainf_def PID_MAX_OUTPUT_def)

lemma example_i:
  "(2138 / 1023 :: real) = errorGyroIf ((pidState_poweron ())\<lparr>kP := 3 / 4, kI := 3, kD := 69 / 16000, kT := 8000 / 1023, gyroRate := 0, rateTarget := 2000\<rparr>)
     + ((rateTarget ((pidState_poweron ())\<lparr>kP := 3 / 4, kI := 3, kD := 69 / 16000, kT := 8000 / 1023, gyroRate := 0, rateTarget := 2000\<rparr>) - gyroRate ((pidState_poweron ())\<lparr>kP := 3 / 4, kI := 3, kD := 69 / 16000, kT := 8000 / 1023, gyroRate := 0, rateTarget := 2000\<rparr>)) * kI ((pidState_poweron ())\<lparr>kP := 3 / 4, kI := 3, kD := 69 / 16000, kT := 8000 / 1023, gyroRate := 0, rateTarget := 2000\<rparr>) * dT exampleEnv
        + (1000 - 1500) * kT ((pidState_poweron ())\<lparr>kP := 3 / 4, kI := 3, kD := 69 / 16000, kT := 8000 / 1023, gyroRate := 0, rateTarget := 2000\<rparr>) * dT exampleEnv)"
  by (simp add: exampleEnv_def pidState_poweron_def)

lemma example_step:
  "pidApplyRateController exampleFilters exampleEnv exampleProfile FD_ROLL ((pidState_poweron ())\<lparr>kP := 3 / 4, kI := 3, kD := 69 / 16000, kT := 8000 / 1023, gyroRate := 0, rateTarget := 2000\<rparr>, \<lambda>_. 0)
   = Inr ((pidState_poweron ())\<lparr>kP := 3 / 4, kI := 3, kD := 69 / 16000, kT := 8000 / 1023,
             gyroRate := 0, rateTarget := 2000,
             errorGyroIf := 2138 / 1023, errorGyroIfLimit := 2138 / 1023\<rparr>,
          (\<lambda>_. 0)(FD_ROLL := 1000))"
proof -
  have f: "float_to_int16 1000 = 1000"
    by (simp add: float_to_int16_def int16_def c_truncate_def)
  show ?thesis
    unfolding step_result [OF example_PTerm example_DTerm example_u example_uLim example_i] f
    by (simp add: exampleEnv_def pidState_poweron_def ABS_def)
qed

lemma example_run:
  "pidRun exampleFilters
      [CallUpdateCoefficients exampleProfile \<lparr>dynThrPID = 50, tpa_breakpoint = 1500\<rparr>
          \<lparr>mincheck = 1100, maxcheck = 1900\<rparr> 1750,
       CallRateController exampleEnv exampleProfile FD_ROLL 0 2000]
      (\<lambda>_. pidState_poweron (), \<lambda>_. 0) =
   Inr ((\<lambda>_. pidState_poweron ())
      (FD_ROLL := (pidState_poweron ())\<lparr>kP := 3 / 4, kI := 3, kD := 69 / 16000, kT := 8000 / 1023,
             gyroRate := 0, rateTarget := 2000,
             errorGyroIf := 2138 / 1023, errorGyroIfLimit := 2138 / 1023\<rparr>,
       FD_PITCH := (pidState_poweron ())\<lparr>kP := 3 / 4, kI := 3, kD := 69 / 16000, kT := 8000 / 1023\<rparr>,
       FD_YAW := (pidState_poweron ())\<lparr>kP := 1, kI := 3, kD := 23 / 4000, kT := 24000 / 4069\<rparr>),
      (\<lambda>_. 0)(FD_ROLL := 1000))"
  by (simp add: example_refresh example_step fun_upd_twist)



text \<open>
  One step of the rate controller on finite values.  With \<open>u\<close> the unclamped output and
  \<open>uLim\<close> its clamp to \<open>\<plusminus>1000\<close>, the step moves the integrator to
  \<open>i = I + (rateError * kI * dT + (uLim - u) * kT * dT)\<close>; if \<open>ANTI_WINDUP\<close> is set or
  \<open>motorLimitReached\<close> holds, the integrator becomes \<open>i\<close> clamped to \<open>\<plusminus>errorGyroIfLimit\<close>
  and the limit stays as it was, otherwise the integrator becomes \<open>i\<close> and the limit
  becomes \<open>|i|\<close>.  A non-negative limit stays non-negative as long as no call divides
  by zero.
\<close>

lemma integrator_step:
  assumes P: "rate_PTerm ops env prof axis st = (P, pf)"
    and D: "rate_DTerm ops env prof axis st = Inr (D, buf, df)"
    and u: "u = (P + D) * (if state_PID_ATTENUATE env then 33 / 100 else 1) + errorGyroIf st"
    and uLim: "uLim = constrainf u (- PID_MAX_OUTPUT) PID_MAX_OUTPUT"
    and i: "i = errorGyroIf st + ((rateTarget st - gyroRate st) * kI st * dT env + (uLim - u) * kT st * dT env)"
  shows "(\<exists>st' ap'. pidApplyRateController ops env prof axis (st, ap) = Inr (st', ap') \<and>
            (if state_ANTI_WINDUP env \<or> motorLimitReached env
             then errorGyroIf st' = constrainf i (- errorGyroIfLimit st) (errorGyroIfLimit st) \<and>
                  errorGyroIfLimit st' = errorGyroIfLimit st
             else errorGyroIf st' = i \<and> errorGyroIfLimit st' = \<bar>i\<bar>) \<and>
            (0 \<le> errorGyroIfLimit st \<longrightarrow> 0 \<le> errorGyroIfLimit st')) \<and>
         (pidRun ops calls (\<lambda>_. pidState_poweron f0, ap0) = Inr (ps1, ap1)
            \<longrightarrow> (\<forall>a. 0 \<le> errorGyroIfLimit (ps1 a)))"
proof (rule conjI)
  note res = step_result [OF P D u uLim i, of ap]
  show "\<exists>st' ap'. pidApplyRateController ops env prof axis (st, ap) = Inr (st', ap') \<and>
            (if state_ANTI_WINDUP env \<or> motorLimitReached env
             then errorGyroIf st' = constrainf i (- errorGyroIfLimit st) (errorGyroIfLimit st) \<and>
                  errorGyroIfLimit st' = errorGyroIfLimit st
             else errorGyroIf st' = i \<and> errorGyroIfLimit st' = \<bar>i\<bar>) \<and>
            (0 \<le> errorGyroIfLimit st \<longrightarrow> 0 \<le> errorGyroIfLimit st')"
    unfolding res by (simp add: ABS_abs)
next
  show "pidRun ops calls (\<lambda>_. pidState_poweron f0, ap0) = Inr (ps1, ap1)
            \<longrightarrow> (\<forall>a. 0 \<le> errorGyroIfLimit (ps1 a))"
  proof
    assume a: "pidRun ops calls (\<lambda>_. pidState_poweron f0, ap0) = Inr (ps1, ap1)"
    have "\<forall>a. 0 \<le> errorGyroIfLimit ((\<lambda>_. pidState_poweron f0) a)"
      by (simp add: pidState_poweron_def)
    with a show "\<forall>a. 0 \<le> errorGyroIfLimit (ps1 a)"
      by (rule limit_run)
  qed
qed

lemma integrator_step_example:
  "(\<exists>st' ap'. pidApplyRateController exampleFilters exampleEnv exampleProfile FD_ROLL
                 ((pidState_poweron ())\<lparr>kP := 3 / 4, kI := 3, kD := 69 / 16000, kT := 8000 / 1023, gyroRate := 0, rateTarget := 2000\<rparr>, \<lambda>_. 0) = Inr (st', ap') \<and>
               errorGyroIf st' = 2138 / 1023 \<and> errorGyroIfLimit st' = 2138 / 1023) \<and>
   (\<exists>ps1 ap1. pidRun exampleFilters
        [CallUpdateCoefficients exampleProfile \<lparr>dynThrPID = 50, tpa_breakpoint = 1500\<rparr>
            \<lparr>mincheck = 1100, maxcheck = 1900\<rparr> 1750,
         CallRateController exampleEnv exampleProfile FD_ROLL 0 2000]
        (\<lambda>_. pidState_poweron (), \<lambda>_. 0) = Inr (ps1, ap1) \<and>
      (\<forall>a. 0 \<le> errorGyroIfLimit (ps1 a)))"
proof -
  note t = integrator_step
      [OF example_PTerm example_DTerm example_u example_uLim example_i,
       where ap = "\<lambda>_. 0" and ?f0.0 = "()" and ?ap0.0 = "\<lambda>_. 0"]
  have w: "\<not> (state_ANTI_WINDUP exampleEnv \<or> motorLimitReached exampleEnv)"
    by (simp add: exampleEnv_def)
  from t [THEN conjunct1] w
  have s: "\<exists>st' ap'. pidApplyRateController exampleFilters exampleEnv exampleProfile FD_ROLL
                 ((pidState_poweron ())\<lparr>kP := 3 / 4, kI := 3, kD := 69 / 16000, kT := 8000 / 1023, gyroRate := 0, rateTarget := 2000\<rparr>, \<lambda>_. 0) = Inr (st', ap') \<and>
               errorGyroIf st' = 2138 / 1023 \<and> errorGyroIfLimit st' = 2138 / 1023"
    by auto
  from t [THEN conjunct2] example_run
  have "\<exists>ps1 ap1. pidRun exampleFilters
        [CallUpdateCoefficients exampleProfile \<lparr>dynThrPID = 50, tpa_breakpoint = 1500\<rparr>
            \<lparr>mincheck = 1100, maxcheck = 1900\<rparr> 1750,
         CallRateController exampleEnv exampleProfile FD_ROLL 0 2000]
        (\<lambda>_. pidState_poweron (), \<lambda>_. 0) = Inr (ps1, ap1) \<and>
      (\<forall>a. 0 \<le> errorGyroIfLimit (ps1 a))"
    by blast
  with s show ?thesis
    by blast
qed

subsection \<open>Back-calculation gain\<close>

lemma calc_kT_defined:
  assumes "0 < p" "0 < i" "0 \<le> d"
  shows "calc_kT p i d = Inr (2 / (p / i + d / p))"
proof -
  have "0 < p / i" "0 \<le> d / p"
    using assms by simp_all
  then have "p / i + d / p \<noteq> 0"
    by linarith
  then show ?thesis
    using assms by (simp add: calc_kT_def fdiv_def)
qed

lemma kT_disabled:
  assumes "P8 pidProfile (pid_index axis) = 0 \<or> I8 pidProfile (pid_index axis) = 0"
  shows "\<exists>st'. updateAxisCoefficients pidProfile t k axis st = Inr st' \<and> kT st' = 0"
  using assms by (auto simp add: updateAxisCoefficients_def Let_def)

text \<open>
  C8 fails on the code.  With a TPA rate of 100 percent and the throttle at 2000 the
  attenuation factor is 0, so the scaled \<open>kP\<close> of the roll axis is 0 although
  \<open>P8[ROLL]\<close> and \<open>I8[ROLL]\<close> are not: the guard admits the computation and \<open>kD / kP\<close>
  divides by zero.
\<close>

theorem kT_division_by_zero:
  "calc_tpaFactor \<lparr>dynThrPID = 100, tpa_breakpoint = 1500\<rparr> 2000 = Inr 0 \<and>
   calc_kdAttenuationFactor \<lparr>mincheck = 1100, maxcheck = 1900\<rparr> 2000 = Inr 1 \<and>
   P8 exampleProfile (pid_index FD_ROLL) \<noteq> 0 \<and> I8 exampleProfile (pid_index FD_ROLL) \<noteq> 0 \<and>
   updateAxisCoefficients exampleProfile 0 1 FD_ROLL (pidState_poweron ()) = Inl DivisionByZero \<and>
   updatePIDCoefficients exampleProfile \<lparr>dynThrPID = 100, tpa_breakpoint = 1500\<rparr>
      \<lparr>mincheck = 1100, maxcheck = 1900\<rparr> 2000 (\<lambda>_. pidState_poweron ()) = Inl DivisionByZero"
  by (simp add: updatePIDCoefficients_def refreshAxis_def updateAxisCoefficients_def calc_kT_def
      calc_tpaFactor_def calc_kdAttenuationFactor_def KD_ATTENUATION_BREAK_def fdiv_def
      exampleProfile_def constrainf_def Let_def)


section \<open>Properties of the outer controller\<close>

subsection \<open>Reset and frame of the altitude controller\<close>

lemma reset_fields:
  "posControl (resetMulticopterAltitudeController ops s) =
     (posControl s)\<lparr>pids_vel_Z := (if prepareForTakeoffOnReset s
                        then (navPidReset ops (pids_vel_Z (posControl s)))\<lparr>integrator := - 500\<rparr>
                        else navPidReset ops (pids_vel_Z (posControl s))),
                    pids_surface := navPidReset ops (pids_surface (posControl s)),
                    desired_vel_Z := actual_vel_Z (posControl s),
                    rcAdjustment_THROTTLE := 0\<rparr>"
  "altholdThrottleFilterState (resetMulticopterAltitudeController ops s) = filterResetPt1 ops (altholdThrottleFilterState s) 0"
  "prepareForTakeoffOnReset (resetMulticopterAltitudeController ops s) = False"
  "rcCommand (resetMulticopterAltitudeController ops s) = rcCommand s"
  "rcCommandAdjustedThrottle (resetMulticopterAltitudeController ops s) = rcCommandAdjustedThrottle s"
  "alt_previousTimeUpdate (resetMulticopterAltitudeController ops s) = alt_previousTimeUpdate s"
  "alt_previousTimePositionUpdate (resetMulticopterAltitudeController ops s) = alt_previousTimePositionUpdate s"
  "emerg_previousTimeUpdate (resetMulticopterAltitudeController ops s) = emerg_previousTimeUpdate s"
  "emerg_previousTimePositionUpdate (resetMulticopterAltitudeController ops s) = emerg_previousTimePositionUpdate s"
  by (simp_all add: resetMulticopterAltitudeController_def Let_def)

lemma alt_stale:
  assumes stale: "staleMicros cfg < currentTime - alt_previousTimeUpdate s"
  shows "applyMulticopterAltitudeController ops cfg currentTime s =
     resetMulticopterAltitudeController ops
       (s\<lparr>alt_previousTimeUpdate := currentTime, alt_previousTimePositionUpdate := currentTime\<rparr>)"
  using stale by (simp add: applyMulticopterAltitudeController_def Let_def)

lemma constrain_bounds: "lo \<le> hi \<Longrightarrow> lo \<le> constrain x lo hi \<and> constrain x lo hi \<le> hi"
  by (simp add: constrain_def)

lemma constrain_int16:
  assumes "int16_value lo" "int16_value hi"
  shows "int16 (constrain x lo hi) = constrain x lo hi"
proof -
  have "constrain x lo hi = lo \<or> constrain x lo hi = hi \<or> (lo \<le> constrain x lo hi \<and> constrain x lo hi \<le> hi)"
    by (auto simp add: constrain_def)
  then have "- 32768 \<le> constrain x lo hi \<and> constrain x lo hi \<le> 32767"
    using assms by (auto simp add: int16_value_def)
  then show ?thesis by (simp add: int16_id)
qed

lemma alt_fresh:
  assumes fresh: "\<not> staleMicros cfg < currentTime - alt_previousTimeUpdate s"
  shows "rcCommand (applyMulticopterAltitudeController ops cfg currentTime s) =
     (rcCommand s)(THROTTLE := int16 (constrain
        (int16 (mc_hover_throttle cfg)
          + rcAdjustment_THROTTLE (posControl (applyMulticopterAltitudeController ops cfg currentTime s)))
        (minthrottle cfg) (maxthrottle cfg)))"
    and "rcCommandAdjustedThrottle (applyMulticopterAltitudeController ops cfg currentTime s) =
       rcCommand (applyMulticopterAltitudeController ops cfg currentTime s) THROTTLE"
    and "\<not> verticalPositionDataNew (posControl s) \<Longrightarrow>
       posControl (applyMulticopterAltitudeController ops cfg currentTime s) = posControl s"
  using fresh
  by (simp_all add: applyMulticopterAltitudeController_def Let_def altitudeStages_def reset_fields
      split: prod.splits)

lemma emerg_valid_fresh:
  assumes "hasValidAltitudeSensor (posControl s)"
    and "\<not> staleMicros cfg < currentTime - emerg_previousTimeUpdate s"
  shows "rcCommand (applyMulticopterEmergencyLandingController ops cfg fc currentTime s) THROTTLE =
     int16 (constrain
        (int16 (mc_hover_throttle cfg)
          + rcAdjustment_THROTTLE (posControl (applyMulticopterEmergencyLandingController ops cfg fc currentTime s)))
        (minthrottle cfg) (maxthrottle cfg))"
  using assms
  by (simp add: applyMulticopterEmergencyLandingController_def Let_def emergencyStages_def reset_fields
      split: prod.splits)

lemma emerg_invalid:
  assumes "\<not> hasValidAltitudeSensor (posControl s)"
  shows "rcCommand (applyMulticopterEmergencyLandingController ops cfg fc currentTime s) THROTTLE =
     (case fc of Some failsafe_throttle \<Rightarrow> int16 failsafe_throttle | None \<Rightarrow> int16 (minthrottle cfg))"
  using assms
  by (simp add: applyMulticopterEmergencyLandingController_def Let_def split: option.splits)

lemma emerg_stale:
  assumes "hasValidAltitudeSensor (posControl s)"
    and "staleMicros cfg < currentTime - emerg_previousTimeUpdate s"
  shows "rcCommand (applyMulticopterEmergencyLandingController ops cfg fc currentTime s) THROTTLE
           = rcCommand s THROTTLE"
  using assms
  by (simp add: applyMulticopterEmergencyLandingController_def Let_def reset_fields)

lemma emerg_sticks:
  "rcCommand (applyMulticopterEmergencyLandingController ops cfg fc currentTime s) ROLL = 0 \<and>
   rcCommand (applyMulticopterEmergencyLandingController ops cfg fc currentTime s) PITCH = 0 \<and>
   rcCommand (applyMulticopterEmergencyLandingController ops cfg fc currentTime s) YAW = 0"
  by (simp add: applyMulticopterEmergencyLandingController_def Let_def emergencyStages_def reset_fields
      split: prod.splits option.splits)

lemma example_stale: "staleMicros exampleConfig < 500000 - alt_previousTimeUpdate exampleState"
  by (simp add: exampleConfig_def exampleState_def)

lemma example_fresh: "\<not> staleMicros exampleConfig < 100000 - alt_previousTimeUpdate exampleState"
  by (simp add: exampleConfig_def exampleState_def)

lemma example_range:
  "int16_value (mc_hover_throttle exampleConfig) \<and> int16_value (minthrottle exampleConfig)
     \<and> int16_value (maxthrottle exampleConfig)"
  by (simp add: exampleConfig_def int16_value_def)

lemma example_no_data: "\<not> verticalPositionDataNew (posControl exampleState)"
  by (simp add: exampleState_def examplePosControl_def)

lemma US2S_tenth: "US2S 100000 = 1 / 10"
  by (simp add: US2S_def)

lemma example_velocity_stage:
  "updateAltitudeVelocityController_MC 100000
     (examplePosControl\<lparr>hasValidAltitudeSensor := True, verticalPositionDataNew := True\<rparr>)
   = examplePosControl\<lparr>hasValidAltitudeSensor := True, verticalPositionDataNew := True, desired_vel_Z := 5\<rparr>"
  by (simp add: updateAltitudeVelocityController_MC_def US2S_tenth Let_def examplePosControl_def constrainf_def)

lemma int16_examples:
  "int16 1150 = 1150" "int16 1500 = 1500" "int16 1850 = 1850" "int16 (- 350) = - 350"
  "int16 350 = 350" "int16 5 = 5" "int16 1505 = 1505"
  by (simp_all add: int16_def)

lemma float_to_int16_five: "float_to_int16 5 = 5"
  by (simp add: float_to_int16_def c_truncate_def int16_def)

lemma example_throttle_stage:
  "updateAltitudeThrottleController_MC exampleNavOps exampleConfig 100000
     (examplePosControl\<lparr>hasValidAltitudeSensor := True, verticalPositionDataNew := True, desired_vel_Z := 5\<rparr>, 12)
   = (examplePosControl\<lparr>hasValidAltitudeSensor := True, verticalPositionDataNew := True, desired_vel_Z := 5,
         rcAdjustment_THROTTLE := 5\<rparr>, 5)"
  apply (simp add: updateAltitudeThrottleController_MC_def exampleConfig_def int16_examples Let_def)
  apply (simp add: exampleNavOps_def examplePosControl_def constrainf_def float_to_int16_five constrain_def int16_examples)
  done

lemma example_sel:
  "isTerrainFollowEnabled examplePosControl = False"
  "rcAdjustment_THROTTLE examplePosControl = 40"
  "posControl exampleState = examplePosControl"
  "altholdThrottleFilterState exampleState = 12"
  "alt_previousTimeUpdate exampleState = 0"
  "alt_previousTimePositionUpdate exampleState = 0"
  "emerg_previousTimeUpdate exampleState = 0"
  "emerg_previousTimePositionUpdate exampleState = 0"
  "staleMicros exampleConfig = 200000"
  "minthrottle exampleConfig = 1150"
  "maxthrottle exampleConfig = 1850"
  "mc_hover_throttle exampleConfig = 1500"
  "emerg_descent_rate exampleConfig = 200"
  by (simp_all add: examplePosControl_def exampleState_def exampleConfig_def)

lemma example_fresh_alt:
  "rcCommand (applyMulticopterAltitudeController exampleNavOps exampleConfig 100000 exampleFreshState) THROTTLE = 1505"
  by (simp add: applyMulticopterAltitudeController_def altitudeStages_def
      updateSurfaceTrackingAltitudeSetpoint_def exampleFreshState_def Let_def example_sel
      example_velocity_stage example_throttle_stage int16_examples constrain_def)

lemma example_climb: "updateAltitudeTargetFromClimbRate exampleNavOps r m pc = pc"
  by (simp add: exampleNavOps_def)

lemma example_fresh_emerg:
  "rcCommand (applyMulticopterEmergencyLandingController exampleNavOps exampleConfig fc 100000 exampleFreshState) THROTTLE = 1505"
  by (simp add: applyMulticopterEmergencyLandingController_def emergencyStages_def
      example_climb exampleFreshState_def Let_def example_sel
      example_velocity_stage example_throttle_stage int16_examples constrain_def)

text \<open>
  C7.  When the time since the previous tick of the altitude controller exceeds the
  stale threshold, the controller resets and does nothing else: the velocity and the
  surface PID objects are reset through \<open>navPidReset\<close>, the throttle filter through
  \<open>filterResetPt1\<close> with input 0, \<open>desired.vel.Z\<close> becomes \<open>actual.vel.Z\<close>,
  \<open>rcAdjustment[THROTTLE]\<close> becomes 0, and if \<open>prepareForTakeoffOnReset\<close> was set the
  integrator of the velocity PID is then seeded with \<open>-500\<close> and the flag is cleared.
  No other field of \<open>posControl\<close> changes, \<open>rcCommand\<close> is not written, and both time
  stamps become the current time.
\<close>

theorem altitude_stale_tick_resets:
  assumes stale: "staleMicros cfg < currentTime - alt_previousTimeUpdate s"
  shows "posControl (applyMulticopterAltitudeController ops cfg currentTime s) =
           (posControl s)
             \<lparr>pids_vel_Z := (if prepareForTakeoffOnReset s
                              then (navPidReset ops (pids_vel_Z (posControl s)))\<lparr>integrator := - 500\<rparr>
                              else navPidReset ops (pids_vel_Z (posControl s))),
              pids_surface := navPidReset ops (pids_surface (posControl s)),
              desired_vel_Z := actual_vel_Z (posControl s),
              rcAdjustment_THROTTLE := 0\<rparr> \<and>
         altholdThrottleFilterState (applyMulticopterAltitudeController ops cfg currentTime s) =
           filterResetPt1 ops (altholdThrottleFilterState s) 0 \<and>
         prepareForTakeoffOnReset (applyMulticopterAltitudeController ops cfg currentTime s) = False \<and>
         rcCommand (applyMulticopterAltitudeController ops cfg currentTime s) = rcCommand s \<and>
         rcCommandAdjustedThrottle (applyMulticopterAltitudeController ops cfg currentTime s)
           = rcCommandAdjustedThrottle s \<and>
         alt_previousTimeUpdate (applyMulticopterAltitudeController ops cfg currentTime s) = currentTime \<and>
         alt_previousTimePositionUpdate (applyMulticopterAltitudeController ops cfg currentTime s)
           = currentTime"
  unfolding alt_stale [OF stale]
  by (simp add: reset_fields)

theorem altitude_stale_tick_resets_witness:
  "posControl (applyMulticopterAltitudeController exampleNavOps exampleConfig 500000 exampleState) =
     examplePosControl\<lparr>pids_vel_Z := \<lparr>param_kP = 1, integrator = - 500\<rparr>,
                        pids_surface := \<lparr>param_kP = 1, integrator = 0\<rparr>,
                        desired_vel_Z := 0, rcAdjustment_THROTTLE := 0\<rparr> \<and>
   altholdThrottleFilterState
     (applyMulticopterAltitudeController exampleNavOps exampleConfig 500000 exampleState) = 0 \<and>
   prepareForTakeoffOnReset
     (applyMulticopterAltitudeController exampleNavOps exampleConfig 500000 exampleState) = False \<and>
   rcCommand (applyMulticopterAltitudeController exampleNavOps exampleConfig 500000 exampleState) THROTTLE
     = 900"
  using altitude_stale_tick_resets [OF example_stale, of exampleNavOps]
  by (simp add: exampleNavOps_def exampleState_def examplePosControl_def)

text \<open>
  C10.  On a stale tick the altitude controller leaves \<open>rcCommand\<close> and the saved
  throttle as they were.  On every other tick it changes \<open>rcCommand\<close> in the throttle
  channel only, to the \<open>int16_t\<close> value of the clamp of hover throttle plus
  \<open>rcAdjustment[THROTTLE]\<close> as it stands after the tick; that is the clamp itself when
  the hover throttle and the two bounds are \<open>int16_t\<close> values.  Without fresh vertical
  data \<open>posControl\<close>, and with it the adjustment, is unchanged.
\<close>

theorem altitude_throttle_frame:
  "(staleMicros cfg < currentTime - alt_previousTimeUpdate s \<longrightarrow>
      rcCommand (applyMulticopterAltitudeController ops cfg currentTime s) = rcCommand s \<and>
      rcCommandAdjustedThrottle (applyMulticopterAltitudeController ops cfg currentTime s)
        = rcCommandAdjustedThrottle s) \<and>
   (\<not> staleMicros cfg < currentTime - alt_previousTimeUpdate s \<longrightarrow>
      rcCommand (applyMulticopterAltitudeController ops cfg currentTime s) =
        (rcCommand s)(THROTTLE := int16 (constrain
           (int16 (mc_hover_throttle cfg)
              + rcAdjustment_THROTTLE (posControl (applyMulticopterAltitudeController ops cfg currentTime s)))
           (minthrottle cfg) (maxthrottle cfg))) \<and>
      (int16_value (mc_hover_throttle cfg) \<and> int16_value (minthrottle cfg)
         \<and> int16_value (maxthrottle cfg) \<longrightarrow>
       rcCommand (applyMulticopterAltitudeController ops cfg currentTime s) THROTTLE =
         constrain (mc_hover_throttle cfg
              + rcAdjustment_THROTTLE (posControl (applyMulticopterAltitudeController ops cfg currentTime s)))
           (minthrottle cfg) (maxthrottle cfg)) \<and>
      (\<not> verticalPositionDataNew (posControl s) \<longrightarrow>
       posControl (applyMulticopterAltitudeController ops cfg currentTime s) = posControl s))"
proof (intro conjI impI)
  assume stale: "staleMicros cfg < currentTime - alt_previousTimeUpdate s"
  show "rcCommand (applyMulticopterAltitudeController ops cfg currentTime s) = rcCommand s"
    unfolding alt_stale [OF stale] by (simp add: reset_fields)
  show "rcCommandAdjustedThrottle (applyMulticopterAltitudeController ops cfg currentTime s)
        = rcCommandAdjustedThrottle s"
    unfolding alt_stale [OF stale] by (simp add: reset_fields)
next
  assume fresh: "\<not> staleMicros cfg < currentTime - alt_previousTimeUpdate s"
  show "rcCommand (applyMulticopterAltitudeController ops cfg currentTime s) =
        (rcCommand s)(THROTTLE := int16 (constrain
           (int16 (mc_hover_throttle cfg)
              + rcAdjustment_THROTTLE (posControl (applyMulticopterAltitudeController ops cfg currentTime s)))
           (minthrottle cfg) (maxthrottle cfg)))"
    by (rule alt_fresh(1) [OF fresh])
next
  assume fresh: "\<not> staleMicros cfg < currentTime - alt_previousTimeUpdate s"
    and rng: "int16_value (mc_hover_throttle cfg) \<and> int16_value (minthrottle cfg)
         \<and> int16_value (maxthrottle cfg)"
  have h: "int16 (mc_hover_throttle cfg) = mc_hover_throttle cfg"
    using rng by (simp add: int16_value_def int16_id)
  show "rcCommand (applyMulticopterAltitudeController ops cfg currentTime s) THROTTLE =
         constrain (mc_hover_throttle cfg
              + rcAdjustment_THROTTLE (posControl (applyMulticopterAltitudeController ops cfg currentTime s)))
           (minthrottle cfg) (maxthrottle cfg)"
    using rng by (subst alt_fresh(1) [OF fresh]) (simp add: constrain_int16 h)
next
  assume fresh: "\<not> staleMicros cfg < currentTime - alt_previousTimeUpdate s"
    and old: "\<not> verticalPositionDataNew (posControl s)"
  show "posControl (applyMulticopterAltitudeController ops cfg currentTime s) = posControl s"
    by (rule alt_fresh(3) [OF fresh old])
qed

theorem altitude_throttle_frame_witness:
  "rcCommand (applyMulticopterAltitudeController exampleNavOps exampleConfig 500000 exampleState) THROTTLE
     = 900 \<and>
   rcCommand (applyMulticopterAltitudeController exampleNavOps exampleConfig 100000 exampleState) THROTTLE
     = 1540 \<and>
   posControl (applyMulticopterAltitudeController exampleNavOps exampleConfig 100000 exampleState)
     = examplePosControl"
proof -
  note stale = altitude_throttle_frame [of exampleConfig 500000 exampleState exampleNavOps,
      THEN conjunct1, rule_format, OF example_stale]
  note fresh = altitude_throttle_frame [of exampleConfig 100000 exampleState exampleNavOps,
      THEN conjunct2, rule_format, OF example_fresh]
  have p: "posControl (applyMulticopterAltitudeController exampleNavOps exampleConfig 100000 exampleState)
     = examplePosControl"
    using fresh [THEN conjunct2, THEN conjunct2, rule_format, OF example_no_data]
    by (simp add: exampleState_def)
  have t: "rcCommand (applyMulticopterAltitudeController exampleNavOps exampleConfig 100000 exampleState)
     THROTTLE = 1540"
    using fresh [THEN conjunct2, THEN conjunct1, rule_format, OF example_range]
    unfolding p by (simp add: examplePosControl_def exampleConfig_def constrain_def)
  have o: "rcCommand (applyMulticopterAltitudeController exampleNavOps exampleConfig 500000 exampleState)
     THROTTLE = 900"
    using stale by (simp add: exampleState_def)
  from o t p show ?thesis by simp
qed

subsection \<open>Published throttle\<close>

text \<open>
  C1, as amended.  Let the throttle bounds be \<open>int16_t\<close> values with
  \<open>minthrottle \<le> maxthrottle\<close>.  On every tick of the altitude controller that is not
  stale, and on every tick of the emergency landing controller with a valid altitude
  sensor that is not stale, the published \<open>rcCommand[THROTTLE]\<close> lies between the
  bounds.  With an invalid altitude sensor the emergency landing controller publishes
  \<open>minthrottle\<close> when there is no failsafe configuration, and otherwise the
  configured failsafe throttle as it is.  A stale tick of either controller leaves
  \<open>rcCommand[THROTTLE]\<close> as it was.
\<close>

theorem published_throttle_bounds:
  assumes lo: "int16_value (minthrottle cfg)" and hi: "int16_value (maxthrottle cfg)"
    and ord: "minthrottle cfg \<le> maxthrottle cfg"
  shows "(\<not> staleMicros cfg < currentTime - alt_previousTimeUpdate s \<longrightarrow>
            minthrottle cfg \<le> rcCommand (applyMulticopterAltitudeController ops cfg currentTime s) THROTTLE \<and>
            rcCommand (applyMulticopterAltitudeController ops cfg currentTime s) THROTTLE \<le> maxthrottle cfg) \<and>
         (hasValidAltitudeSensor (posControl s) \<and>
            \<not> staleMicros cfg < currentTime - emerg_previousTimeUpdate s \<longrightarrow>
            minthrottle cfg
              \<le> rcCommand (applyMulticopterEmergencyLandingController ops cfg fc currentTime s) THROTTLE \<and>
            rcCommand (applyMulticopterEmergencyLandingController ops cfg fc currentTime s) THROTTLE
              \<le> maxthrottle cfg) \<and>
         (\<not> hasValidAltitudeSensor (posControl s) \<longrightarrow>
            rcCommand (applyMulticopterEmergencyLandingController ops cfg None currentTime s) THROTTLE
              = minthrottle cfg \<and>
            rcCommand (applyMulticopterEmergencyLandingController ops cfg (Some failsafe_throttle)
                         currentTime s) THROTTLE
              = int16 failsafe_throttle) \<and>
         (staleMicros cfg < currentTime - alt_previousTimeUpdate s \<longrightarrow>
            rcCommand (applyMulticopterAltitudeController ops cfg currentTime s) THROTTLE
              = rcCommand s THROTTLE) \<and>
         (hasValidAltitudeSensor (posControl s) \<and>
            staleMicros cfg < currentTime - emerg_previousTimeUpdate s \<longrightarrow>
            rcCommand (applyMulticopterEmergencyLandingController ops cfg fc currentTime s) THROTTLE
              = rcCommand s THROTTLE)"
proof (intro conjI impI)
  assume fresh: "\<not> staleMicros cfg < currentTime - alt_previousTimeUpdate s"
  let ?v = "rcCommand (applyMulticopterAltitudeController ops cfg currentTime s) THROTTLE"
  have "?v = constrain (int16 (mc_hover_throttle cfg)
              + rcAdjustment_THROTTLE (posControl (applyMulticopterAltitudeController ops cfg currentTime s)))
           (minthrottle cfg) (maxthrottle cfg)"
    by (subst alt_fresh(1) [OF fresh]) (simp add: constrain_int16 [OF lo hi])
  then show "minthrottle cfg \<le> ?v" "?v \<le> maxthrottle cfg"
    using constrain_bounds [OF ord] by simp_all
next
  assume a: "hasValidAltitudeSensor (posControl s) \<and>
            \<not> staleMicros cfg < currentTime - emerg_previousTimeUpdate s"
  let ?v = "rcCommand (applyMulticopterEmergencyLandingController ops cfg fc currentTime s) THROTTLE"
  have "?v = constrain (int16 (mc_hover_throttle cfg)
              + rcAdjustment_THROTTLE (posControl (applyMulticopterEmergencyLandingController ops cfg fc currentTime s)))
           (minthrottle cfg) (maxthrottle cfg)"
    using a by (subst emerg_valid_fresh) (simp_all add: constrain_int16 [OF lo hi])
  then show "minthrottle cfg \<le> ?v" "?v \<le> maxthrottle cfg"
    using constrain_bounds [OF ord] by simp_all
next
  assume a: "\<not> hasValidAltitudeSensor (posControl s)"
  show "rcCommand (applyMulticopterEmergencyLandingController ops cfg None currentTime s) THROTTLE
              = minthrottle cfg"
    using lo by (simp add: emerg_invalid [OF a] int16_value_def int16_id)
  show "rcCommand (applyMulticopterEmergencyLandingController ops cfg (Some failsafe_throttle)
                         currentTime s) THROTTLE = int16 failsafe_throttle"
    by (simp add: emerg_invalid [OF a])
next
  assume stale: "staleMicros cfg < currentTime - alt_previousTimeUpdate s"
  show "rcCommand (applyMulticopterAltitudeController ops cfg currentTime s) THROTTLE
          = rcCommand s THROTTLE"
    unfolding alt_stale [OF stale] by (simp add: reset_fields)
next
  assume a: "hasValidAltitudeSensor (posControl s) \<and>
            staleMicros cfg < currentTime - emerg_previousTimeUpdate s"
  then show "rcCommand (applyMulticopterEmergencyLandingController ops cfg fc currentTime s) THROTTLE
          = rcCommand s THROTTLE"
    by (simp add: emerg_stale)
qed

theorem published_throttle_bounds_witness:
  "rcCommand (applyMulticopterAltitudeController exampleNavOps exampleConfig 100000 exampleFreshState) THROTTLE
     = 1505 \<and>
   minthrottle exampleConfig
     \<le> rcCommand (applyMulticopterAltitudeController exampleNavOps exampleConfig 100000 exampleFreshState) THROTTLE \<and>
   rcCommand (applyMulticopterAltitudeController exampleNavOps exampleConfig 100000 exampleFreshState) THROTTLE
     \<le> maxthrottle exampleConfig \<and>
   minthrottle exampleConfig
     \<le> rcCommand (applyMulticopterEmergencyLandingController exampleNavOps exampleConfig (Some 1000)
                     100000 exampleFreshState) THROTTLE \<and>
   rcCommand (applyMulticopterEmergencyLandingController exampleNavOps exampleConfig (Some 1000)
                100000 exampleFreshState) THROTTLE \<le> maxthrottle exampleConfig \<and>
   rcCommand (applyMulticopterEmergencyLandingController exampleNavOps exampleConfig None
                100000 exampleState) THROTTLE = 1150 \<and>
   rcCommand (applyMulticopterEmergencyLandingController exampleNavOps exampleConfig (Some 1000)
                100000 exampleState) THROTTLE = 1000 \<and>
   rcCommand (applyMulticopterAltitudeController exampleNavOps exampleConfig 500000 exampleFreshState)
     THROTTLE = 900 \<and>
   rcCommand (applyMulticopterEmergencyLandingController exampleNavOps exampleConfig (Some 1000)
                500000 exampleFreshState) THROTTLE = 900"
proof -
  have lo: "int16_value (minthrottle exampleConfig)" and hi: "int16_value (maxthrottle exampleConfig)"
    and ord: "minthrottle exampleConfig \<le> maxthrottle exampleConfig"
    by (simp_all add: exampleConfig_def int16_value_def)
  note a = published_throttle_bounds [OF lo hi ord, of 100000 exampleFreshState exampleNavOps "Some 1000" 1000]
  note b = published_throttle_bounds [OF lo hi ord, of 100000 exampleState exampleNavOps "Some 1000" 1000]
  have f1: "\<not> staleMicros exampleConfig < 100000 - alt_previousTimeUpdate exampleFreshState"
    by (simp add: exampleConfig_def exampleFreshState_def exampleState_def)
  have f2: "hasValidAltitudeSensor (posControl exampleFreshState) \<and>
      \<not> staleMicros exampleConfig < 100000 - emerg_previousTimeUpdate exampleFreshState"
    by (simp add: exampleConfig_def exampleFreshState_def exampleState_def)
  have f3: "\<not> hasValidAltitudeSensor (posControl exampleState)"
    by (simp add: exampleState_def examplePosControl_def)
  note c = published_throttle_bounds [OF lo hi ord, of 500000 exampleFreshState exampleNavOps "Some 1000" 1000]
  have f4: "staleMicros exampleConfig < 500000 - alt_previousTimeUpdate exampleFreshState"
    by (simp add: exampleConfig_def exampleFreshState_def exampleState_def)
  have f5: "hasValidAltitudeSensor (posControl exampleFreshState) \<and>
      staleMicros exampleConfig < 500000 - emerg_previousTimeUpdate exampleFreshState"
    by (simp add: exampleConfig_def exampleFreshState_def exampleState_def)
  have r: "rcCommand exampleFreshState THROTTLE = 900"
    by (simp add: exampleFreshState_def exampleState_def)
  from a f1 f2 b f3 c f4 f5 r example_fresh_alt show ?thesis
    by (simp add: example_sel int16_def)
qed

text \<open>
  The claim as worded fails in the emergency landing controller without an altitude
  sensor, which publishes a failsafe throttle of 1000 below the minimum of 1150, and
  on a stale tick of the altitude controller, which leaves the receiver's 900 in place.
\<close>

theorem published_throttle_counterexample:
  "\<not> hasValidAltitudeSensor (posControl exampleState) \<and>
   rcCommand (applyMulticopterEmergencyLandingController exampleNavOps exampleConfig (Some 1000)
                250000 exampleState) THROTTLE = 1000 \<and>
   \<not> minthrottle exampleConfig \<le> 1000 \<and>
   staleMicros exampleConfig < 500000 - alt_previousTimeUpdate exampleState \<and>
   rcCommand (applyMulticopterAltitudeController exampleNavOps exampleConfig 500000 exampleState) THROTTLE
     = 900 \<and>
   \<not> minthrottle exampleConfig \<le> 900"
  by (simp add: applyMulticopterEmergencyLandingController_def applyMulticopterAltitudeController_def
      resetMulticopterAltitudeController_def
      Let_def exampleState_def examplePosControl_def exampleConfig_def int16_def)

subsection \<open>Land detector\<close>

lemma landing_detected_only_if:
  assumes "isMulticopterLandingDetected cfg currentTime (Some timer) (Some had) s = Some (True, timer', had')"
  shows "rcCommandAdjustedThrottle s < mc_min_fly_throttle cfg \<and>
         \<bar>actual_vel_Z (posControl s)\<bar> \<le> 25 \<and> actual_velXY (posControl s) \<le> 100 \<and>
         (hasValidSurfaceSensor (posControl s) \<and> actual_surface (posControl s) \<ge> 0 \<and> actual_surfaceMin (posControl s) \<ge> 0
            \<longrightarrow> actual_surface (posControl s) \<le> actual_surfaceMin (posControl s) + 5) \<and>
         currentTime - timer > word_of_int (LAND_DETECTOR_TRIGGER_TIME_MS cfg * 1000) \<and> timer' = timer"
  using assms
  by (auto simp add: isMulticopterLandingDetected_def Let_def split: if_splits)

lemma landing_violation_resets_timer:
  assumes "\<not> rcCommandAdjustedThrottle s < mc_min_fly_throttle cfg \<or> \<bar>actual_vel_Z (posControl s)\<bar> > 25 \<or> actual_velXY (posControl s) > 100"
  shows "\<exists>had'. isMulticopterLandingDetected cfg currentTime (Some timer) (Some had) s = Some (False, currentTime, had')"
  using assms
  by (auto simp add: isMulticopterLandingDetected_def Let_def)

text \<open>
  C4 fails on the code.  The craft never descended faster than 25 cm/s, so the flag
  behind \<open>hasHadSomeVelocity\<close> is and stays false.  A first poll at high thrust starts
  the timer; a poll 2.000001 s later, at rest and at low thrust, reports a landing.
\<close>

theorem land_detector_ignores_descent_flag:
  "isMulticopterLandingDetected exampleConfig 1000000 (Some 0) (Some False)
      (exampleState\<lparr>rcCommandAdjustedThrottle := 1500\<rparr>) = Some (False, 1000000, False) \<and>
   isMulticopterLandingDetected exampleConfig 3000001 (Some 1000000) (Some False) exampleState
      = Some (True, 1000000, False)"
  by (simp add: isMulticopterLandingDetected_def Let_def exampleState_def examplePosControl_def
      exampleConfig_def)

end
